theory Spec2Isabelle
  imports Main
begin

section \<open>Strings\<close>

text \<open>
  Go strings are byte sequences; they are modelled as \<open>string\<close> (a list of 8-bit
  characters). The functions of package \<open>strings\<close> that the program calls are written
  out, byte for byte.
\<close>

definition HasPrefix :: "string \<Rightarrow> string \<Rightarrow> bool" where
  "HasPrefix s p = (take (length p) s = p)"

fun Contains :: "string \<Rightarrow> string \<Rightarrow> bool" where
  "Contains [] sub = (sub = [])"
| "Contains (c # cs) sub = (HasPrefix (c # cs) sub \<or> Contains cs sub)"

text \<open>
  \<open>strings.ReplaceAll(s, old, new)\<close> for a non-empty \<open>old\<close> (the only way the program
  calls it): non-overlapping occurrences are replaced from left to right. The first
  argument of \<open>replaceFrom\<close> counts the bytes of a match that are still to be dropped.
\<close>

fun replaceFrom :: "nat \<Rightarrow> string \<Rightarrow> string \<Rightarrow> string \<Rightarrow> string" where
  "replaceFrom skip [] old new = []"
| "replaceFrom skip (c # cs) old new =
     (if 0 < skip then replaceFrom (skip - 1) cs old new
      else if HasPrefix (c # cs) old then new @ replaceFrom (length old - 1) cs old new
      else c # replaceFrom 0 cs old new)"

definition ReplaceAll :: "string \<Rightarrow> string \<Rightarrow> string \<Rightarrow> string" where
  "ReplaceAll s old new = replaceFrom 0 s old new"

definition isSpace :: "char \<Rightarrow> bool" where
  "isSpace c = (c = CHR '' '' \<or> c = CHR 0x09 \<or> c = CHR 0x0A \<or> c = CHR 0x0B
                \<or> c = CHR 0x0C \<or> c = CHR 0x0D)"

definition trimWhile :: "(char \<Rightarrow> bool) \<Rightarrow> string \<Rightarrow> string" where
  "trimWhile P s = rev (dropWhile P (rev (dropWhile P s)))"

text \<open>
  \<open>strings.ToLower\<close> and \<open>strings.TrimSpace\<close> work on the bytes themselves as long
  as these are ASCII (below \<open>utf8.RuneSelf\<close>, 128) and hand a string with a byte
  beyond ASCII over to the tables of package \<open>unicode\<close>. The tables are not code of
  this program: what \<open>Map(unicode.ToLower, s)\<close>, \<open>TrimFunc(s, unicode.IsSpace)\<close> and
  \<open>TrimRightFunc(s, unicode.IsSpace)\<close> return is a parameter of the model, and nothing
  is assumed about it.
\<close>

record unicode_tables =
  mapToLower :: "string \<Rightarrow> string"
  trimFunc :: "string \<Rightarrow> string"
  trimRightFunc :: "string \<Rightarrow> string"

definition isASCII :: "char \<Rightarrow> bool" where
  "isASCII c = ((of_char c :: nat) < 128)"

text \<open>
  \<open>TrimSpace\<close> skips ASCII white space from the front; if the byte it stops at is
  beyond ASCII, the rest goes to \<open>TrimFunc\<close>. Otherwise it skips ASCII white space
  from the back; if the byte it stops at there is beyond ASCII, what is left goes to
  \<open>TrimRightFunc\<close>.
\<close>

definition TrimSpace :: "unicode_tables \<Rightarrow> string \<Rightarrow> string" where
  "TrimSpace rt s =
     (case dropWhile isSpace s of
        [] \<Rightarrow> []
      | c # cs \<Rightarrow>
          if \<not> isASCII c then trimFunc rt (c # cs)
          else (case dropWhile isSpace (rev (c # cs)) of
                  [] \<Rightarrow> []
                | d # ds \<Rightarrow>
                    if \<not> isASCII d then trimRightFunc rt (rev (d # ds))
                    else rev (d # ds)))"

definition Trim :: "string \<Rightarrow> string \<Rightarrow> string" where
  "Trim s cutset = trimWhile (\<lambda>c. c \<in> set cutset) s"

definition lowerChar :: "char \<Rightarrow> char" where
  "lowerChar c =
     (case map_of (zip ''ABCDEFGHIJKLMNOPQRSTUVWXYZ'' ''abcdefghijklmnopqrstuvwxyz'') c of
        Some l \<Rightarrow> l
      | None \<Rightarrow> c)"

text \<open>\<open>ToLower\<close> lower-cases the letters \<open>A\<close> to \<open>Z\<close> of a string that is all
  ASCII; any other string goes to \<open>Map(unicode.ToLower, s)\<close>.\<close>

definition ToLower :: "unicode_tables \<Rightarrow> string \<Rightarrow> string" where
  "ToLower rt s = (if list_all isASCII s then map lowerChar s else mapToLower rt s)"

fun Join :: "string list \<Rightarrow> string \<Rightarrow> string" where
  "Join [] sep = []"
| "Join [x] sep = x"
| "Join (x # y # ys) sep = x @ sep @ Join (y # ys) sep"

text \<open>
  \<open>strings.Split(s, sep)\<close> for a non-empty \<open>sep\<close>. The accumulator holds the piece
  being read, reversed; the counter works as in \<open>replaceFrom\<close>.
\<close>

fun splitFrom :: "nat \<Rightarrow> string \<Rightarrow> string \<Rightarrow> string \<Rightarrow> string list" where
  "splitFrom skip acc [] sep = [rev acc]"
| "splitFrom skip acc (c # cs) sep =
     (if 0 < skip then splitFrom (skip - 1) acc cs sep
      else if HasPrefix (c # cs) sep then rev acc # splitFrom (length sep - 1) [] cs sep
      else splitFrom 0 (c # acc) cs sep)"

definition Split :: "string \<Rightarrow> string \<Rightarrow> string list" where
  "Split s sep = splitFrom 0 [] s sep"

text \<open>\<open>url.QueryEscape\<close>: unreserved bytes stay, a space becomes \<open>+\<close>, every other
  byte becomes \<open>%XX\<close> in upper-case hexadecimal.\<close>

definition unreserved :: "char \<Rightarrow> bool" where
  "unreserved c = (let n = (of_char c :: nat) in
     (97 \<le> n \<and> n \<le> 122) \<or> (65 \<le> n \<and> n \<le> 90) \<or> (48 \<le> n \<and> n \<le> 57)
     \<or> c = CHR ''-'' \<or> c = CHR ''_'' \<or> c = CHR ''.'' \<or> c = CHR ''~'')"

definition upperhex :: "nat \<Rightarrow> char" where
  "upperhex n = ''0123456789ABCDEF'' ! (n mod 16)"

definition escapeByte :: "char \<Rightarrow> string" where
  "escapeByte c =
     (if unreserved c then [c]
      else if c = CHR '' '' then ''+''
      else [CHR ''%'', upperhex ((of_char c :: nat) div 16), upperhex (of_char c :: nat)])"

definition QueryEscape :: "string \<Rightarrow> string" where
  "QueryEscape s = concat (map escapeByte s)"

section \<open>Errors\<close>

text \<open>
  A Go \<open>error\<close> value. The three sentinel variables of the program are constructors;
  \<open>Errorf\<close> stands for an error made by \<open>fmt.Errorf\<close> or \<open>errors.New\<close> without \<open>%w\<close>
  (only its message prefix is kept), \<open>Wrapf\<close> for \<open>fmt.Errorf("%w: ...", e, ...)\<close>.
  A nil error is \<open>None\<close> of \<open>error option\<close>.
\<close>

datatype error =
    ErrAnkiConnectFailed
  | ErrNotionAuthFailed
  | ErrNotionDBNotFound
  | Errorf string
  | Wrapf error string

fun errorsIs :: "error \<Rightarrow> error \<Rightarrow> bool" where
  "errorsIs (Wrapf e msg) target = (Wrapf e msg = target \<or> errorsIs e target)"
| "errorsIs e target = (e = target)"

section \<open>Transform steps (package processors)\<close>

type_synonym fields = "string \<rightharpoonup> string"

text \<open>The free-form \<open>Config\<close> options of a step are read by no code and are left out.\<close>

record ProcessorConfig =
  Name :: string
  Enabled :: bool
  TargetField :: string
  SourceField :: string

text \<open>
  The interface \<open>NoteProcessor\<close> is its method table. \<open>Process\<close> mutates the mapping
  behind a pointer and returns an error; the model returns the new mapping with it.
\<close>

record NoteProcessor =
  procName :: string
  procProcess :: "fields \<Rightarrow> ProcessorConfig \<Rightarrow> fields \<times> error option"

record AudioInfo =
  URL :: string
  Format :: string
  Found :: bool
  ErrorMsg :: string

definition AudioInfo0 :: AudioInfo where
  "AudioInfo0 = \<lparr>URL = [], Format = [], Found = False, ErrorMsg = []\<rparr>"

text \<open>
  What the HTTP client and the HTML parser give back. An \<open>audio\<close> element of the
  parsed page carries its own \<open>src\<close> attribute, if any, and the \<open>src\<close> attributes of
  the \<open>source\<close> elements below it, in document order. The reply of a GET is a
  transport error or a status code with the body; the body is the list of \<open>audio\<close>
  elements that the parser finds in it, \<open>None\<close> when parsing fails.
\<close>

datatype audio_element = AudioElement (src: "string option") (sources: "string option list")

datatype get_reply = GetFailed | GetReply nat "audio_element list option"

record DWDSAudioProcessor =
  client :: "string \<Rightarrow> get_reply"

definition baseURL :: string where
  "baseURL = ''https://www.dwds.de''"

definition isAudioURL :: "unicode_tables \<Rightarrow> string \<Rightarrow> bool" where
  "isAudioURL rt url =
     (if url = [] then False
      else let lowerURL = ToLower rt url in
        if list_ex (\<lambda>ext. Contains lowerURL ext) [''.mp3'', ''.ogg'', ''.wav'', ''.m4a'', ''.aac'']
        then True
        else if list_ex (\<lambda>path. Contains lowerURL path)
                  [''audio'', ''sound'', ''pronunciation'', ''media'', ''mp3'']
        then True
        else False)"

definition cleanAudioURL :: "unicode_tables \<Rightarrow> string \<Rightarrow> string" where
  "cleanAudioURL rt rawURL =
     (let url = ReplaceAll rawURL ''&amp;'' ''&'';
          url = ReplaceAll url ''&#x2F;'' ''/'';
          url = ReplaceAll url ''&#47;'' ''/'';
          url = TrimSpace rt url;
          url = Trim url [CHR 0x22, CHR 0x27];
          resolved =
            (if \<not> HasPrefix url ''http'' then
               (if HasPrefix url ''/'' then Some (baseURL @ url)
                else if HasPrefix url ''//'' then Some (''https:'' @ url)
                else if url \<noteq> [] \<and> \<not> Contains url ''javascript:'' then Some (baseURL @ ''/'' @ url)
                else None)
             else Some url)
      in case resolved of
           None \<Rightarrow> []
         | Some url \<Rightarrow> if \<not> isAudioURL rt url then [] else url)"

definition detectAudioFormat :: "unicode_tables \<Rightarrow> string \<Rightarrow> string" where
  "detectAudioFormat rt url =
     (let lowerURL = ToLower rt url in
      if Contains lowerURL ''.mp3'' then ''mp3''
      else if Contains lowerURL ''.ogg'' then ''ogg''
      else if Contains lowerURL ''.wav'' then ''wav''
      else if Contains lowerURL ''.m4a'' then ''m4a''
      else if Contains lowerURL ''.aac'' then ''aac''
      else ''unknown'')"

text \<open>
  The two nested \<open>Each\<close> loops of \<open>findAudioElements\<close>: an element with a non-empty
  \<open>src\<close> sets \<open>audioURL\<close>; otherwise each of its \<open>source\<close> children with a non-empty
  \<open>src\<close> sets it. The \<open>return\<close> statements leave only the closure of one element, so
  the last assignment wins.
\<close>

fun eachSource :: "string option list \<Rightarrow> string \<Rightarrow> string" where
  "eachSource [] audioURL = audioURL"
| "eachSource (s # ss) audioURL =
     (case s of
        Some v \<Rightarrow> if v \<noteq> [] then eachSource ss v else eachSource ss audioURL
      | None \<Rightarrow> eachSource ss audioURL)"

fun eachAudio :: "audio_element list \<Rightarrow> string \<Rightarrow> string" where
  "eachAudio [] audioURL = audioURL"
| "eachAudio (a # as) audioURL =
     (case src a of
        Some v \<Rightarrow> if v \<noteq> [] then eachAudio as v
                  else eachAudio as (eachSource (sources a) audioURL)
      | None \<Rightarrow> eachAudio as (eachSource (sources a) audioURL))"

definition scrapedURL :: "audio_element list \<Rightarrow> string" where
  "scrapedURL doc = eachAudio doc []"

definition findAudioElements :: "unicode_tables \<Rightarrow> audio_element list \<Rightarrow> AudioInfo" where
  "findAudioElements rt doc =
     (let audioURL = scrapedURL doc in
      if audioURL \<noteq> [] then
        (let cleanURL = cleanAudioURL rt audioURL in
         if cleanURL \<noteq> [] then
           \<lparr>URL = cleanURL, Format = detectAudioFormat rt cleanURL, Found = True, ErrorMsg = []\<rparr>
         else AudioInfo0)
      else AudioInfo0)"

definition extractAudioURL :: "unicode_tables \<Rightarrow> audio_element list option \<Rightarrow> string
                                \<Rightarrow> AudioInfo \<times> error option" where
  "extractAudioURL rt html word =
     (case html of
        None \<Rightarrow> (AudioInfo0\<lparr>ErrorMsg := ''HTML parsing failed''\<rparr>, Some (Errorf ''HTML parsing failed''))
      | Some doc \<Rightarrow>
          (let audioInfo = findAudioElements rt doc in
           if Found audioInfo then (audioInfo, None)
           else (AudioInfo0\<lparr>ErrorMsg := ''No audio link found''\<rparr>, None)))"

definition GetAudioURL :: "unicode_tables \<Rightarrow> DWDSAudioProcessor \<Rightarrow> string
                            \<Rightarrow> AudioInfo \<times> error option" where
  "GetAudioURL rt p word =
     (let dwdsURL = baseURL @ ''/wb/'' @ QueryEscape (ToLower rt word) in
      case client p dwdsURL of
        GetFailed \<Rightarrow> (AudioInfo0\<lparr>ErrorMsg := ''fail to fetch audio URL''\<rparr>, Some (Errorf ''fail to fetch audio URL''))
      | GetReply status html \<Rightarrow>
          if status \<noteq> 200 then (AudioInfo0\<lparr>ErrorMsg := ''HTTP error''\<rparr>, Some (Errorf ''HTTP status code''))
          else extractAudioURL rt html word)"

definition Process :: "unicode_tables \<Rightarrow> DWDSAudioProcessor \<Rightarrow> fields \<Rightarrow> ProcessorConfig
                        \<Rightarrow> fields \<times> error option" where
  "Process rt p noteData config =
     (let sourceField = SourceField config; targetField = TargetField config in
      if sourceField = [] \<or> targetField = [] then
        (noteData, Some (Errorf ''dwds_audio processor requires 'source_field' and 'target_field' in its config''))
      else case noteData sourceField of
        None \<Rightarrow> (noteData, None)
      | Some source \<Rightarrow>
          if source = [] then (noteData, None)
          else (case GetAudioURL rt p source of
                  (audioInfo, Some err) \<Rightarrow> (noteData, None)
                | (audioInfo, None) \<Rightarrow>
                    if Found audioInfo then (noteData(targetField \<mapsto> URL audioInfo), None)
                    else (noteData, None)))"

definition dwdsNoteProcessor :: "unicode_tables \<Rightarrow> DWDSAudioProcessor \<Rightarrow> NoteProcessor" where
  "dwdsNoteProcessor rt p = \<lparr>procName = ''dwds_audio'', procProcess = Process rt p\<rparr>"

section \<open>The source store (notion.go)\<close>

text \<open>
  A typed property of a page. The Go struct has a \<open>Type\<close> tag and one field per
  type, and the program reads only the field that the tag selects, so the property is
  a tagged union: a title and a rich text carry the \<open>PlainText\<close> of their segments, a
  select the \<open>Name\<close> of its option (\<open>None\<close> for a nil pointer), a multi-select the
  names of its options, a URL its string (\<open>None\<close> for a nil pointer). Every other
  type is \<open>DBPropTypeOther\<close>.

  \<open>DatabasePageProperties\<close> is a Go map; it is modelled by the list of its entries
  in the order in which a \<open>range\<close> loop visits them, so that the loops over it are
  recursions. The keys of a Go map are distinct.
\<close>

datatype DatabasePageProperty =
    DBPropTypeTitle "string list"
  | DBPropTypeRichText "string list"
  | DBPropTypeSelect "string option"
  | DBPropTypeMultiSelect "string list"
  | DBPropTypeURL "string option"
  | DBPropTypeOther

type_synonym DatabasePageProperties = "(string \<times> DatabasePageProperty) list"

text \<open>\<open>Properties\<close> is \<open>None\<close> when the interface value is nil or is not a
  \<open>DatabasePageProperties\<close>. Times are nanoseconds as unbounded integers.\<close>

record Page =
  ID :: string
  LastEditedTime :: int
  Properties :: "DatabasePageProperties option"

record NotionConfig =
  DatabaseID :: string
  Token :: string

record NotionClient =
  NConfig :: NotionConfig
  LastSyncTime :: int
  PollInterval :: int

datatype api_error = APIError nat | OtherError

record DatabaseQuery =
  After :: int
  StartCursor :: string

record DatabaseQueryResponse =
  Results :: "Page list"
  HasMore :: bool
  NextCursor :: "string option"

section \<open>The sink (anki.go): data\<close>

datatype json = JNull | JBool bool | JNumber int | JString string | JArray "json list"

record AnkiConnectResponse =
  Result :: json
  Error :: json

datatype AnkiNote = AnkiNote string string fields "string list"

datatype params =
    NoParams
  | DeckParams string
  | ModelParams string "string list"
  | AddNotesParams "AnkiNote list"

record AnkiConnectRequest =
  Action :: string
  Version :: int
  Params :: params

text \<open>The reply to a POST: a transport error, or a status code with the decoded
  body (\<open>None\<close> when the body does not decode).\<close>

datatype post_reply = PostFailed | PostReply nat "AnkiConnectResponse option"

record AnkiConfig =
  AnkiConnectURL :: string
  DeckName :: string
  ModelName :: string

record Anki =
  Config :: AnkiConfig

section \<open>The world outside the process\<close>

text \<open>
  Everything the program reaches through a client or a global is a field of the
  world in which one sync cycle runs: the HTTP endpoint of the sink, the two calls to
  the source store's API, the 1Password command, the process-wide registry of
  transform steps (whose implementations hold their own HTTP clients), the clock and
  the tables of package \<open>unicode\<close>.
  The answers within one cycle depend on the request only.
\<close>

record world =
  httpPost :: "string \<Rightarrow> AnkiConnectRequest \<Rightarrow> post_reply"
  QueryDatabase :: "string \<Rightarrow> DatabaseQuery \<Rightarrow> api_error + DatabaseQueryResponse"
  UpdatePage :: "string \<Rightarrow> DatabasePageProperties \<Rightarrow> error option"
  opRead :: "string \<Rightarrow> string option"
  processorRegistry :: "string \<rightharpoonup> NoteProcessor"
  Now :: int
  tables :: unicode_tables

text \<open>What a call does: it returns, it panics, or it never returns (the model runs
  out of fuel).\<close>

datatype 'a outcome = Returns 'a | Panics | Diverges

section \<open>The source store: operations\<close>

definition Hour :: int where
  "Hour = 3600000000000"

definition get1PasswordSecret :: "world \<Rightarrow> string \<Rightarrow> error + string" where
  "get1PasswordSecret w reference =
     (if \<not> HasPrefix reference ''op://'' then Inr reference
      else case opRead w reference of
             None \<Rightarrow> Inl (Errorf ''failed to read 1Password secret'')
           | Some output \<Rightarrow> Inr (TrimSpace (tables w) output))"

definition NewNotion :: "world \<Rightarrow> string \<Rightarrow> string \<Rightarrow> int \<Rightarrow> NotionClient option" where
  "NewNotion w tokenRef databaseID interval =
     (case get1PasswordSecret w tokenRef of
        Inl err \<Rightarrow> None
      | Inr token \<Rightarrow>
          Some \<lparr>NConfig = \<lparr>DatabaseID = databaseID, Token = token\<rparr>,
                LastSyncTime = Now w + (- 100 * Hour),
                PollInterval = interval\<rparr>)"

definition QueryNotionDatabase :: "world \<Rightarrow> NotionClient \<Rightarrow> string \<Rightarrow> error + DatabaseQueryResponse" where
  "QueryNotionDatabase w nt cursor =
     (case QueryDatabase w (DatabaseID (NConfig nt))
             \<lparr>After = LastSyncTime nt, StartCursor = cursor\<rparr> of
        Inl (APIError status) \<Rightarrow>
          if status = 401 then Inl ErrNotionAuthFailed
          else if status = 404 then Inl ErrNotionDBNotFound
          else Inl (Errorf ''failed to query Notion database'')
      | Inl OtherError \<Rightarrow> Inl (Errorf ''failed to query Notion database'')
      | Inr result \<Rightarrow> Inr result)"

text \<open>The \<open>for\<close> loop of \<open>QueryAllPages\<close> has no bound of its own: the fuel counts
  the pages it may still ask for. Dereferencing a nil \<open>NextCursor\<close> panics.\<close>

fun queryLoop :: "nat \<Rightarrow> world \<Rightarrow> NotionClient \<Rightarrow> string \<Rightarrow> Page list \<Rightarrow> (error + Page list) outcome" where
  "queryLoop 0 w nt cursor allPages = Diverges"
| "queryLoop (Suc fuel) w nt cursor allPages =
     (case QueryNotionDatabase w nt cursor of
        Inl err \<Rightarrow> Returns (Inl err)
      | Inr result \<Rightarrow>
          (let allPages = allPages @ Results result in
           if \<not> HasMore result then Returns (Inr allPages)
           else case NextCursor result of
                  None \<Rightarrow> Panics
                | Some cursor \<Rightarrow> queryLoop fuel w nt cursor allPages))"

definition QueryAllPages :: "nat \<Rightarrow> world \<Rightarrow> NotionClient \<Rightarrow> (error + Page list \<times> DatabasePageProperties) outcome" where
  "QueryAllPages fuel w nt =
     (case queryLoop fuel w nt [] [] of
        Diverges \<Rightarrow> Diverges
      | Panics \<Rightarrow> Panics
      | Returns (Inl err) \<Rightarrow> Returns (Inl err)
      | Returns (Inr allPages) \<Rightarrow>
          Returns (Inr (allPages,
            (case allPages of
               [] \<Rightarrow> []
             | page # _ \<Rightarrow> (case Properties page of None \<Rightarrow> [] | Some dbProps \<Rightarrow> dbProps)))))"

text \<open>One round of the loop of \<open>ExtractPropertiesFromPage\<close>, then the loop.\<close>

definition extractProperty :: "fields \<Rightarrow> string \<Rightarrow> DatabasePageProperty \<Rightarrow> fields" where
  "extractProperty properties name prop =
     (case prop of
        DBPropTypeTitle title \<Rightarrow>
          (case title of
             text # _ \<Rightarrow> if text \<noteq> [] then properties(name \<mapsto> text) else properties
           | [] \<Rightarrow> properties(name \<mapsto> ''-''))
      | DBPropTypeURL url \<Rightarrow>
          (case url of
             Some u \<Rightarrow> if u \<noteq> [] then properties(name \<mapsto> u) else properties(name \<mapsto> ''-'')
           | None \<Rightarrow> properties(name \<mapsto> ''-''))
      | DBPropTypeSelect sel \<Rightarrow>
          (case sel of
             Some n \<Rightarrow> if n \<noteq> [] then properties(name \<mapsto> n) else properties(name \<mapsto> ''-'')
           | None \<Rightarrow> properties(name \<mapsto> ''-''))
      | DBPropTypeMultiSelect options \<Rightarrow>
          (let multiSelectValues = filter (\<lambda>n. n \<noteq> []) options in
           if multiSelectValues \<noteq> [] then properties(name \<mapsto> Join multiSelectValues '', '')
           else properties(name \<mapsto> ''-''))
      | DBPropTypeRichText texts \<Rightarrow>
          (let richTextValues = filter (\<lambda>t. t \<noteq> []) texts in
           if richTextValues \<noteq> [] then properties(name \<mapsto> Join richTextValues '', '')
           else properties(name \<mapsto> ''-''))
      | DBPropTypeOther \<Rightarrow> properties)"

fun extractLoop :: "DatabasePageProperties \<Rightarrow> fields \<Rightarrow> fields" where
  "extractLoop [] properties = properties"
| "extractLoop ((name, prop) # rest) properties =
     extractLoop rest (extractProperty properties name prop)"

definition ExtractPropertiesFromPage :: "Page \<Rightarrow> fields" where
  "ExtractPropertiesFromPage page =
     (case Properties page of
        None \<Rightarrow> Map.empty
      | Some dbProps \<Rightarrow> extractLoop dbProps Map.empty)"

text \<open>\<open>UpdatePageOfDatabase\<close>: each entry of \<open>props\<close> becomes a property of the type
  that the name has in \<open>pageProperties\<close> (a missing name gives the zero property, whose
  type matches no case), and the whole is sent in one call.\<close>

definition updateProperty :: "DatabasePageProperties \<Rightarrow> string \<Rightarrow> string \<Rightarrow> DatabasePageProperty" where
  "updateProperty pageProperties name v =
     (case map_of pageProperties name of
        None \<Rightarrow> DBPropTypeOther
      | Some prop \<Rightarrow>
          (case prop of
             DBPropTypeTitle _ \<Rightarrow> DBPropTypeTitle [v]
           | DBPropTypeRichText _ \<Rightarrow> DBPropTypeRichText [v]
           | DBPropTypeSelect _ \<Rightarrow> DBPropTypeSelect (Some v)
           | DBPropTypeMultiSelect _ \<Rightarrow> DBPropTypeMultiSelect (Split v '', '')
           | DBPropTypeURL _ \<Rightarrow> DBPropTypeURL (Some v)
           | DBPropTypeOther \<Rightarrow> DBPropTypeOther))"

definition UpdatePageOfDatabase :: "world \<Rightarrow> Page \<Rightarrow> (string \<times> string) list \<Rightarrow> DatabasePageProperties \<Rightarrow> error option" where
  "UpdatePageOfDatabase w page props pageProperties =
     UpdatePage w (ID page) (map (\<lambda>(name, v). (name, updateProperty pageProperties name v)) props)"

section \<open>The sink: operations\<close>

text \<open>Marshalling the requests of this program cannot fail, so \<open>makeJSONRequest\<close>
  starts at the POST.\<close>

definition makeJSONRequest :: "world \<Rightarrow> Anki \<Rightarrow> AnkiConnectRequest \<Rightarrow> error + AnkiConnectResponse" where
  "makeJSONRequest w anki payload =
     (case httpPost w (AnkiConnectURL (Config anki)) payload of
        PostFailed \<Rightarrow> Inl (Errorf ''fail to send request'')
      | PostReply status body \<Rightarrow>
          if status \<noteq> 200 then Inl (Errorf ''fail to receive valid response'')
          else (case body of
                  None \<Rightarrow> Inl (Errorf ''decode'')
                | Some response \<Rightarrow> Inr response))"

definition CheckAnkiConnect :: "world \<Rightarrow> Anki \<Rightarrow> error option" where
  "CheckAnkiConnect w anki =
     (case makeJSONRequest w anki \<lparr>Action = ''version'', Version = 6, Params = NoParams\<rparr> of
        Inl err \<Rightarrow> Some (Wrapf ErrAnkiConnectFailed ''%w: %v'')
      | Inr response \<Rightarrow>
          if Error response \<noteq> JNull then Some (Errorf ''AnkiConnect check error'')
          else None)"

definition CreateDeck :: "world \<Rightarrow> Anki \<Rightarrow> string \<Rightarrow> error option" where
  "CreateDeck w anki deckName =
     (if deckName = [] then Some (Errorf ''no deck name provided'')
      else case makeJSONRequest w anki
                  \<lparr>Action = ''createDeck'', Version = 6, Params = DeckParams deckName\<rparr> of
             Inl err \<Rightarrow> Some (Errorf ''fail to create deck'')
           | Inr response \<Rightarrow>
               if Error response \<noteq> JNull then Some (Errorf ''AnkiConnect deck creation error'')
               else None)"

definition EnsureDeckExists :: "world \<Rightarrow> Anki \<Rightarrow> error option" where
  "EnsureDeckExists w anki =
     (let deckName = DeckName (Config anki) in
      if deckName \<noteq> [] then
        (case makeJSONRequest w anki \<lparr>Action = ''deckNames'', Version = 6, Params = NoParams\<rparr> of
           Inl err \<Rightarrow> Some (Errorf ''fail to check existing decks'')
         | Inr response \<Rightarrow>
             if Error response \<noteq> JNull then Some (Errorf ''AnkiConnect deck exist error'')
             else (case Result response of
                     JArray deckNames \<Rightarrow>
                       if list_ex (\<lambda>name. name = JString deckName) deckNames then None
                       else CreateDeck w anki deckName
                   | _ \<Rightarrow> Some (Errorf ''invalid response format'')))
      else Some (Errorf ''no deck name provided''))"

definition createModel :: "world \<Rightarrow> Anki \<Rightarrow> string \<Rightarrow> string list \<Rightarrow> error option" where
  "createModel w anki modelName fs =
     (if modelName = [] then Some (Errorf ''no model name provided'')
      else case makeJSONRequest w anki
                  \<lparr>Action = ''createModel'', Version = 6, Params = ModelParams modelName fs\<rparr> of
             Inl err \<Rightarrow> Some (Errorf ''fail to create model'')
           | Inr response \<Rightarrow>
               if Error response \<noteq> JNull then Some (Errorf ''AnkiConnect model creation error'')
               else None)"

definition EnsureModelExists :: "world \<Rightarrow> Anki \<Rightarrow> DatabasePageProperties \<Rightarrow> error option" where
  "EnsureModelExists w anki pageProperties =
     (let configModelName = ModelName (Config anki) in
      case makeJSONRequest w anki \<lparr>Action = ''modelNames'', Version = 6, Params = NoParams\<rparr> of
        Inl err \<Rightarrow> Some (Errorf ''fail to check existing models'')
      | Inr response \<Rightarrow>
          if Error response \<noteq> JNull then Some (Errorf ''AnkiConnect model check error'')
          else (case Result response of
                  JArray modelNames \<Rightarrow>
                    if list_ex (\<lambda>name. name = JString configModelName) modelNames then None
                    else createModel w anki configModelName (map fst pageProperties)
                | _ \<Rightarrow> Some (Errorf ''invalid response format'')))"

text \<open>\<open>AddNotesToDeck\<close> sends the batch and logs what comes back; it returns nil on
  every path.\<close>

definition AddNotesToDeck :: "world \<Rightarrow> Anki \<Rightarrow> fields list \<Rightarrow> error option" where
  "AddNotesToDeck w anki fs =
     (let ankiNotes = map (\<lambda>noteFields.
            AnkiNote (DeckName (Config anki)) (ModelName (Config anki)) noteFields [''notion'']) fs
      in case makeJSONRequest w anki
                \<lparr>Action = ''addNotes'', Version = 6, Params = AddNotesParams ankiNotes\<rparr> of
           Inl err \<Rightarrow> None
         | Inr response \<Rightarrow> None)"

definition CanAddNotes :: "world \<Rightarrow> Anki \<Rightarrow> fields \<Rightarrow> error + bool" where
  "CanAddNotes w anki fs =
     (case makeJSONRequest w anki
             \<lparr>Action = ''canAddNotes'', Version = 6,
              Params = AddNotesParams
                [AnkiNote (DeckName (Config anki)) (ModelName (Config anki)) fs [''notion'']]\<rparr> of
        Inl err \<Rightarrow> Inl (Errorf ''fail to fetch notes by deck'')
      | Inr response \<Rightarrow>
          if Error response \<noteq> JNull then Inl (Errorf ''AnkiConnect fetch notes error'')
          else (case Result response of
                  JArray result \<Rightarrow>
                    (case map (\<lambda>indicator. indicator = JBool True) result of
                       [] \<Rightarrow> Inl (Errorf ''no indicators returned'')
                     | first # _ \<Rightarrow> Inr first)
                | _ \<Rightarrow> Inl (Errorf ''invalid response format'')))"

section \<open>The sync engine\<close>

text \<open>Of \<open>Config\<close>, the engine reads the transform steps only; the other settings
  reach it through \<open>Anki\<close> and \<open>NotionClient\<close>.\<close>

record SyncConfig =
  Processors :: "ProcessorConfig list"

text \<open>
  The calls a cycle makes on behalf of a record are observed as events: a call of a
  transform step on the record's field mapping, and a write-back of entries to the
  source store. An event names the record it was made for.
\<close>

datatype event =
    ProcessCalled Page string
  | UpdatePageOfDatabaseCalled Page "(string \<times> string) list"

text \<open>The value of \<open>properties[name]\<close>: the empty string for a missing key.\<close>

definition index :: "fields \<Rightarrow> string \<Rightarrow> string" where
  "index properties name = (case properties name of None \<Rightarrow> [] | Some v \<Rightarrow> v)"

text \<open>
  The inner loop of \<open>sync\<close>, over the configured steps, for one record. A name that
  is not in the registry gives the nil interface value; the statement after the log
  line calls \<open>Process\<close> on it, which panics. The result is the events and the final
  mapping, \<open>None\<close> for a panic.
\<close>

fun runProcessors :: "world \<Rightarrow> Page \<Rightarrow> DatabasePageProperties \<Rightarrow> ProcessorConfig list \<Rightarrow> fields
                       \<Rightarrow> event list \<times> fields option" where
  "runProcessors w page pageProperties [] properties = ([], Some properties)"
| "runProcessors w page pageProperties (processConfig # rest) properties =
     (if \<not> Enabled processConfig then runProcessors w page pageProperties rest properties
      else case processorRegistry w (Name processConfig) of
             None \<Rightarrow> ([], None)
           | Some processor \<Rightarrow>
               (let properties = fst (procProcess processor properties processConfig);
                    props = [(TargetField processConfig, index properties (TargetField processConfig))];
                    updateErr = UpdatePageOfDatabase w page props pageProperties;
                    later = runProcessors w page pageProperties rest properties
                in (ProcessCalled page (Name processConfig)
                      # UpdatePageOfDatabaseCalled page props # fst later, snd later)))"

text \<open>The outer loop, over the fetched records. \<open>notesToAdd\<close> is the pending insert
  batch; each mapping in it is kept with the record it came from.\<close>

fun processPages :: "world \<Rightarrow> Anki \<Rightarrow> SyncConfig \<Rightarrow> DatabasePageProperties \<Rightarrow> Page list
                      \<Rightarrow> (Page \<times> fields) list \<Rightarrow> event list \<times> (Page \<times> fields) list option" where
  "processPages w anki cfg pageProperties [] notesToAdd = ([], Some notesToAdd)"
| "processPages w anki cfg pageProperties (page # pages) notesToAdd =
     (let properties = ExtractPropertiesFromPage page in
      case CanAddNotes w anki properties of
        Inl err \<Rightarrow> processPages w anki cfg pageProperties pages notesToAdd
      | Inr canBeAdded \<Rightarrow>
          if \<not> canBeAdded then processPages w anki cfg pageProperties pages notesToAdd
          else (case runProcessors w page pageProperties (Processors cfg) properties of
                  (evs, None) \<Rightarrow> (evs, None)
                | (evs, Some properties) \<Rightarrow>
                    (let later = processPages w anki cfg pageProperties pages
                                   (notesToAdd @ [(page, properties)])
                     in (evs @ fst later, snd later))))"

text \<open>One cycle. It yields the events, the pending insert batch that the record
  loop built (empty when the cycle did not get that far), and how the call ended: the
  returned error with the client as the cycle left it, a panic, or no return.\<close>

record cycle =
  events :: "event list"
  batch :: "(Page \<times> fields) list"
  ended :: "(error option \<times> NotionClient) outcome"

definition sync :: "nat \<Rightarrow> world \<Rightarrow> Anki \<Rightarrow> NotionClient \<Rightarrow> SyncConfig \<Rightarrow> cycle" where
  "sync fuel w anki nt cfg =
     (case CheckAnkiConnect w anki of
        Some err \<Rightarrow> \<lparr>events = [], batch = [], ended = Returns (Some err, nt)\<rparr>
      | None \<Rightarrow>
     (case QueryAllPages fuel w nt of
        Diverges \<Rightarrow> \<lparr>events = [], batch = [], ended = Diverges\<rparr>
      | Panics \<Rightarrow> \<lparr>events = [], batch = [], ended = Panics\<rparr>
      | Returns (Inl err) \<Rightarrow> \<lparr>events = [], batch = [], ended = Returns (Some err, nt)\<rparr>
      | Returns (Inr (pages, pageProperties)) \<Rightarrow>
     (case EnsureDeckExists w anki of
        Some err \<Rightarrow> \<lparr>events = [], batch = [], ended = Returns (Some err, nt)\<rparr>
      | None \<Rightarrow>
     (case EnsureModelExists w anki pageProperties of
        Some err \<Rightarrow> \<lparr>events = [], batch = [], ended = Returns (Some err, nt)\<rparr>
      | None \<Rightarrow>
     (case processPages w anki cfg pageProperties pages [] of
        (evs, None) \<Rightarrow> \<lparr>events = evs, batch = [], ended = Panics\<rparr>
      | (evs, Some notesToAdd) \<Rightarrow>
          (let addErr = (if notesToAdd \<noteq> [] then AddNotesToDeck w anki (map snd notesToAdd)
                         else None)
           in \<lparr>events = evs, batch = notesToAdd,
               ended = Returns (None, nt\<lparr>LastSyncTime := Now w\<rparr>)\<rparr>))))))"

definition isFatalError :: "error \<Rightarrow> bool" where
  "isFatalError err =
     (if errorsIs err ErrAnkiConnectFailed \<or> errorsIs err ErrNotionAuthFailed
         \<or> errorsIs err ErrNotionDBNotFound
      then True else False)"

section \<open>The scheduler\<close>

text \<open>
  What has become of the process: it exited with a status (\<open>log.Fatalf\<close> exits with
  status 1), it crashed on a panic that nothing recovers, it hangs inside a cycle, or
  it is still running with the client in some state. The ticker loop of \<open>Start\<close>
  never ends; the model runs it for the ticks it is given, one world per cycle.
\<close>

datatype process = Exited nat | Crashed | Hangs | Running NotionClient

fun tickerLoop :: "nat \<Rightarrow> world list \<Rightarrow> Anki \<Rightarrow> NotionClient \<Rightarrow> SyncConfig \<Rightarrow> process" where
  "tickerLoop fuel [] anki nt cfg = Running nt"
| "tickerLoop fuel (w # ws) anki nt cfg =
     (case ended (sync fuel w anki nt cfg) of
        Returns (err, nt) \<Rightarrow> tickerLoop fuel ws anki nt cfg
      | Panics \<Rightarrow> Crashed
      | Diverges \<Rightarrow> Hangs)"

text \<open>
  The interval of the ticker is \<open>time.Duration(nt.PollInterval) * time.Second\<close>, a
  product of 64-bit integers, which wraps around. \<open>time.NewTicker\<close> panics when the
  interval is not positive.
\<close>

definition Second :: int where
  "Second = 1000000000"

definition int64 :: "int \<Rightarrow> int" where
  "int64 x = (x + 9223372036854775808) mod 18446744073709551616 - 9223372036854775808"

definition tickerInterval :: "NotionClient \<Rightarrow> int" where
  "tickerInterval nt = int64 (PollInterval nt * Second)"

text \<open>\<open>Start\<close> gets the client that \<open>NewNotion\<close> made, which is nil when the token
  could not be read; its first statement then dereferences nil. After the first
  cycle, unless a fatal error has ended the process, it makes the ticker and enters
  the loop.\<close>

definition Start :: "nat \<Rightarrow> world \<Rightarrow> world list \<Rightarrow> Anki \<Rightarrow> NotionClient option \<Rightarrow> SyncConfig \<Rightarrow> process" where
  "Start fuel w ws anki ntp cfg =
     (case ntp of
        None \<Rightarrow> Crashed
      | Some nt \<Rightarrow>
          (case (case ended (sync fuel w anki nt cfg) of
                   Returns (Some err, nt) \<Rightarrow> if isFatalError err then Inl (Exited 1) else Inr nt
                 | Returns (None, nt) \<Rightarrow> Inr nt
                 | Panics \<Rightarrow> Inl Crashed
                 | Diverges \<Rightarrow> Inl Hangs) of
             Inl stopped \<Rightarrow> stopped
           | Inr nt \<Rightarrow>
               if tickerInterval nt \<le> 0 then Crashed
               else tickerLoop fuel ws anki nt cfg))"

section \<open>Notions used to state the properties\<close>

text \<open>The reference as \<open>cleanAudioURL\<close> has it after decoding the three HTML
  entities and trimming white space and quotes, before it is resolved.\<close>

definition unescapeTrim :: "unicode_tables \<Rightarrow> string \<Rightarrow> string" where
  "unescapeTrim rt rawURL =
     Trim (TrimSpace rt (ReplaceAll (ReplaceAll (ReplaceAll rawURL ''&amp;'' ''&'') ''&#x2F;'' ''/'')
                        ''&#47;'' ''/''))
          [CHR 0x22, CHR 0x27]"

text \<open>
  The audio heuristics as the specification words them, for an absolute URL: the
  file extension is one of five, or the path contains one of five keywords. The path
  is what follows the authority, up to a query or a fragment; the file extension is
  the part of the last path segment from its last dot on. Letter case is ignored.
\<close>

definition afterScheme :: "string \<Rightarrow> string" where
  "afterScheme url = drop 3 (dropWhile (\<lambda>c. c \<noteq> CHR '':'') url)"

definition urlPath :: "string \<Rightarrow> string" where
  "urlPath url =
     takeWhile (\<lambda>c. c \<noteq> CHR ''?'' \<and> c \<noteq> CHR ''#'')
       (dropWhile (\<lambda>c. c \<noteq> CHR ''/'') (afterScheme url))"

definition fileExtension :: "string \<Rightarrow> string" where
  "fileExtension path =
     (let segment = rev (takeWhile (\<lambda>c. c \<noteq> CHR ''/'') (rev path)) in
      if CHR ''.'' \<in> set segment
      then CHR ''.'' # rev (takeWhile (\<lambda>c. c \<noteq> CHR ''.'') (rev segment))
      else [])"

definition looksLikeAudio :: "unicode_tables \<Rightarrow> string \<Rightarrow> bool" where
  "looksLikeAudio rt url =
     (let path = urlPath (ToLower rt url) in
      fileExtension path \<in> set [''.mp3'', ''.ogg'', ''.wav'', ''.m4a'', ''.aac'']
      \<or> list_ex (\<lambda>k. Contains path k) [''audio'', ''sound'', ''pronunciation'', ''media'', ''mp3''])"

text \<open>
  Modelled from the spec: the source store's answer to the incremental query, which
  is not code of this repository. The store filters by "last-modified after" the
  timestamp of the query and orders newest first; here it answers in one page.
\<close>

definition notionServer :: "Page list \<Rightarrow> string \<Rightarrow> DatabaseQuery \<Rightarrow> api_error + DatabaseQueryResponse" where
  "notionServer db databaseID query =
     Inr \<lparr>Results = rev (sort_key LastEditedTime (filter (\<lambda>p. After query < LastEditedTime p) db)),
          HasMore = False, NextCursor = None\<rparr>"


text \<open>The record that an event names.\<close>

fun eventPage :: "event \<Rightarrow> Page" where
  "eventPage (ProcessCalled p name) = p"
| "eventPage (UpdatePageOfDatabaseCalled p props) = p"

text \<open>The fetched records that the sink's duplicate check lets through, in order.\<close>

definition addable :: "world \<Rightarrow> Anki \<Rightarrow> Page list \<Rightarrow> Page list" where
  "addable w anki pages =
     filter (\<lambda>p. CanAddNotes w anki (ExtractPropertiesFromPage p) = Inr True) pages"

text \<open>Every enabled step of the configuration has an implementation in the
  registry.\<close>

definition registered :: "world \<Rightarrow> ProcessorConfig list \<Rightarrow> bool" where
  "registered w steps =
     list_all (\<lambda>pc. Enabled pc \<longrightarrow> processorRegistry w (Name pc) \<noteq> None) steps"

text \<open>What one round of the extractor's loop stores under the property's own name,
  starting from a mapping without that name.\<close>

definition flattened :: "DatabasePageProperty \<Rightarrow> string option" where
  "flattened prop = extractProperty Map.empty [] prop []"

section \<open>A scenario\<close>

text \<open>
  A vocabulary database with four records, a sink that already holds the note for
  \<open>Tisch\<close>, and a dictionary site that has a pronunciation for \<open>Baum\<close> only and
  answers every other lookup with status 500. The clock of the cycle reads hour 1000.
  Every string of the scenario is ASCII, so that no call in it reaches the tables of
  package \<open>unicode\<close>; \<open>noTables\<close> stands in for them.
\<close>

definition noTables :: unicode_tables where
  "noTables = \<lparr>mapToLower = id, trimFunc = id, trimRightFunc = id\<rparr>"

definition hausPage :: Page where
  "hausPage = \<lparr>ID = ''p1'', LastEditedTime = 990 * Hour,
               Properties = Some [(''Word'', DBPropTypeTitle [''Haus''])]\<rparr>"

definition baumPage :: Page where
  "baumPage = \<lparr>ID = ''p2'', LastEditedTime = 980 * Hour,
               Properties = Some [(''Word'', DBPropTypeTitle [''Baum''])]\<rparr>"

definition tischPage :: Page where
  "tischPage = \<lparr>ID = ''p3'', LastEditedTime = 970 * Hour,
                Properties = Some [(''Word'', DBPropTypeTitle [''Tisch''])]\<rparr>"

definition altPage :: Page where
  "altPage = \<lparr>ID = ''p4'', LastEditedTime = 899 * Hour,
              Properties = Some [(''Word'', DBPropTypeTitle [''Alt''])]\<rparr>"

definition typedPage :: Page where
  "typedPage = \<lparr>ID = ''p5'', LastEditedTime = 960 * Hour,
                Properties = Some
                  [(''Word'', DBPropTypeTitle [''Ha'', ''us'']),
                   (''Translation'', DBPropTypeRichText [''house'', [], ''home'']),
                   (''Artikel'', DBPropTypeSelect (Some ''das'')),
                   (''Tag'', DBPropTypeMultiSelect [''noun'', ''A1'']),
                   (''Link'', DBPropTypeURL None),
                   (''Done'', DBPropTypeOther)]\<rparr>"

definition okReply :: "json \<Rightarrow> post_reply" where
  "okReply r = PostReply 200 (Some \<lparr>Result = r, Error = JNull\<rparr>)"

definition isTisch :: "params \<Rightarrow> bool" where
  "isTisch ps =
     (case ps of
        AddNotesParams notes \<Rightarrow>
          (case notes of
             AnkiNote deck model fs tags # _ \<Rightarrow> fs ''Word'' = Some ''Tisch''
           | [] \<Rightarrow> False)
      | _ \<Rightarrow> False)"

definition sinkReplies :: "string \<Rightarrow> AnkiConnectRequest \<Rightarrow> post_reply" where
  "sinkReplies url request =
     (if Action request = ''version'' then okReply (JNumber 6)
      else if Action request = ''deckNames'' then okReply (JArray [JString ''Deutsch''])
      else if Action request = ''modelNames'' then okReply (JArray [JString ''Vocab''])
      else if Action request = ''canAddNotes''
        then okReply (JArray [JBool (\<not> isTisch (Params request))])
      else okReply JNull)"

definition deadSink :: "string \<Rightarrow> AnkiConnectRequest \<Rightarrow> post_reply" where
  "deadSink url request = PostFailed"

definition rejectingSource :: "nat \<Rightarrow> string \<Rightarrow> DatabaseQuery \<Rightarrow> api_error + DatabaseQueryResponse" where
  "rejectingSource status databaseID query = Inl (APIError status)"

definition acceptingStore :: "string \<Rightarrow> DatabasePageProperties \<Rightarrow> error option" where
  "acceptingStore pageID ps = None"

definition noSecrets :: "string \<Rightarrow> string option" where
  "noSecrets reference = None"

definition dwdsSite :: "string \<Rightarrow> get_reply" where
  "dwdsSite url =
     (if url = ''https://www.dwds.de/wb/baum''
      then GetReply 200 (Some [AudioElement None [Some ''/audio/baum.mp3'']])
      else GetReply 500 None)"

definition downSite :: "string \<Rightarrow> get_reply" where
  "downSite url = GetReply 500 None"

definition audioStep :: ProcessorConfig where
  "audioStep = \<lparr>Name = ''dwds_audio'', Enabled = True, TargetField = ''Audio'', SourceField = ''Word''\<rparr>"

definition ipaStep :: ProcessorConfig where
  "ipaStep = \<lparr>Name = ''ipa'', Enabled = True, TargetField = ''IPA'', SourceField = ''Word''\<rparr>"

definition theWorld :: world where
  "theWorld = \<lparr>httpPost = sinkReplies,
               QueryDatabase = notionServer [altPage, baumPage, hausPage, tischPage],
               UpdatePage = acceptingStore,
               opRead = noSecrets,
               processorRegistry =
                 [''dwds_audio'' \<mapsto> dwdsNoteProcessor noTables \<lparr>client = dwdsSite\<rparr>],
               Now = 1000 * Hour,
               tables = noTables\<rparr>"

definition theAnki :: Anki where
  "theAnki = \<lparr>Config = \<lparr>AnkiConnectURL = ''http://localhost:8765'',
                         DeckName = ''Deutsch'', ModelName = ''Vocab''\<rparr>\<rparr>"

definition namelessAnki :: Anki where
  "namelessAnki = \<lparr>Config = \<lparr>AnkiConnectURL = ''http://localhost:8765'',
                              DeckName = [], ModelName = ''Vocab''\<rparr>\<rparr>"

definition theNotion :: NotionClient where
  "theNotion = \<lparr>NConfig = \<lparr>DatabaseID = ''db1'', Token = ''secret''\<rparr>,
                LastSyncTime = 900 * Hour, PollInterval = 300\<rparr>"

definition theConfig :: SyncConfig where
  "theConfig = \<lparr>Processors = [audioStep]\<rparr>"

text \<open>A source store that rejects every write-back and a sink whose bulk insert
  fails in transport, for a cycle in which all that can fail recoverably does.\<close>

definition failingStore :: "string \<Rightarrow> DatabasePageProperties \<Rightarrow> error option" where
  "failingStore pageID ps = Some (Errorf ''update rejected'')"

definition flakySink :: "string \<Rightarrow> AnkiConnectRequest \<Rightarrow> post_reply" where
  "flakySink url request =
     (if Action request = ''addNotes'' then PostFailed else sinkReplies url request)"

definition brokenWorld :: world where
  "brokenWorld = theWorld\<lparr>httpPost := flakySink, UpdatePage := failingStore\<rparr>"

named_theorems model_defs \<open>definitions unfolded to run the model on the scenario\<close>

lemmas [model_defs] = HasPrefix_def ReplaceAll_def isSpace_def trimWhile_def TrimSpace_def Trim_def
  lowerChar_def ToLower_def unreserved_def upperhex_def escapeByte_def QueryEscape_def
  AudioInfo0_def baseURL_def isAudioURL_def cleanAudioURL_def detectAudioFormat_def scrapedURL_def
  findAudioElements_def extractAudioURL_def GetAudioURL_def Process_def dwdsNoteProcessor_def
  Hour_def get1PasswordSecret_def NewNotion_def QueryNotionDatabase_def QueryAllPages_def
  extractProperty_def ExtractPropertiesFromPage_def updateProperty_def UpdatePageOfDatabase_def
  makeJSONRequest_def CheckAnkiConnect_def CreateDeck_def EnsureDeckExists_def createModel_def
  EnsureModelExists_def AddNotesToDeck_def CanAddNotes_def index_def sync_def isFatalError_def
  Start_def unescapeTrim_def afterScheme_def urlPath_def fileExtension_def looksLikeAudio_def
  notionServer_def hausPage_def baumPage_def tischPage_def altPage_def typedPage_def okReply_def
  isTisch_def sinkReplies_def deadSink_def rejectingSource_def acceptingStore_def noSecrets_def
  dwdsSite_def audioStep_def ipaStep_def theWorld_def theAnki_def namelessAnki_def theNotion_def
  theConfig_def failingStore_def flakySink_def brokenWorld_def addable_def registered_def
  flattened_def downSite_def isASCII_def noTables_def Second_def int64_def tickerInterval_def
  Let_def

section \<open>The built-in transform step\<close>

text \<open>Beyond ASCII the two library functions are what the tables give: a string
  with a byte above 127 is lower-cased by them, and a string that starts, after its
  ASCII white space, with such a byte (the no-break space U+00A0 is \<open>0xC2 0xA0\<close>) is
  trimmed by them.\<close>

lemma ToLower_beyond_ASCII:
  "\<not> list_all isASCII s \<Longrightarrow> ToLower rt s = mapToLower rt s"
  by (simp add: ToLower_def)

lemma TrimSpace_beyond_ASCII:
  "TrimSpace rt (CHR '' '' # CHR 0xC2 # CHR 0xA0 # rest) = trimFunc rt (CHR 0xC2 # CHR 0xA0 # rest)"
  by (simp add: TrimSpace_def isSpace_def isASCII_def)

lemma ToLower_ASCII:
  "list_all isASCII s \<Longrightarrow> ToLower rt s = map lowerChar s"
  by (simp add: ToLower_def)

lemma if_chain_bool:
  "(if u then False else if A then True else if B then True else False) = (\<not> u \<and> (A \<or> B))"
  by auto

lemma isAudioURL_iff:
  "isAudioURL rt url = list_ex (Contains (ToLower rt url))
     [''.mp3'', ''.ogg'', ''.wav'', ''.m4a'', ''.aac'',
      ''audio'', ''sound'', ''pronunciation'', ''media'', ''mp3'']"
proof -
  let ?exts = "[''.mp3'', ''.ogg'', ''.wav'', ''.m4a'', ''.aac'']"
  let ?paths = "[''audio'', ''sound'', ''pronunciation'', ''media'', ''mp3'']"
  have unfolded: "isAudioURL rt url =
      (url \<noteq> [] \<and> (list_ex (Contains (ToLower rt url)) ?exts \<or> list_ex (Contains (ToLower rt url)) ?paths))"
    by (simp only: isAudioURL_def Let_def if_chain_bool)
  have empty: "\<not> list_ex (Contains (ToLower rt [])) (?exts @ ?paths)"
    by (simp add: ToLower_def)
  have "isAudioURL rt url = list_ex (Contains (ToLower rt url)) (?exts @ ?paths)"
  proof (cases "url = []")
    case True
    then show ?thesis using empty by (simp add: isAudioURL_def)
  next
    case False
    then show ?thesis by (simp only: unfolded list_ex_append simp_thms)
  qed
  then show ?thesis by (simp only: append.simps)
qed

lemma HasPrefix_base: "HasPrefix (baseURL @ rest) ''http''" "HasPrefix baseURL ''http''"
  by (simp_all add: HasPrefix_def baseURL_def)

lemma cleanAudioURL_cases:
  "cleanAudioURL rt rawURL =
     (let url = unescapeTrim rt rawURL in
      if HasPrefix url ''http'' then (if isAudioURL rt url then url else [])
      else if HasPrefix url ''/'' then (if isAudioURL rt (baseURL @ url) then baseURL @ url else [])
      else if url \<noteq> [] \<and> \<not> Contains url ''javascript:''
        then (if isAudioURL rt (baseURL @ ''/'' @ url) then baseURL @ ''/'' @ url else [])
      else [])"
proof -
  have "HasPrefix url ''//'' \<Longrightarrow> HasPrefix url ''/''" for url
    by (cases url) (auto simp: HasPrefix_def)
  then show ?thesis
    unfolding cleanAudioURL_def unescapeTrim_def Let_def by auto
qed

lemma cleanAudioURL_accepted:
  "cleanAudioURL rt rawURL \<noteq> [] \<Longrightarrow>
     HasPrefix (cleanAudioURL rt rawURL) ''http'' \<and> isAudioURL rt (cleanAudioURL rt rawURL)"
  unfolding cleanAudioURL_cases Let_def
  by (auto simp: HasPrefix_base split: if_splits)

lemma Process_writes:
  "fst (Process rt p noteData config) (TargetField config) \<noteq> noteData (TargetField config) \<Longrightarrow>
   \<exists>word doc. noteData (SourceField config) = Some word
      \<and> client p (baseURL @ ''/wb/'' @ QueryEscape (ToLower rt word)) = GetReply 200 (Some doc)
      \<and> cleanAudioURL rt (scrapedURL doc) \<noteq> []
      \<and> fst (Process rt p noteData config) (TargetField config) = Some (cleanAudioURL rt (scrapedURL doc))"
  by (auto simp: Process_def GetAudioURL_def extractAudioURL_def findAudioElements_def
        AudioInfo0_def Let_def
      split: option.splits prod.splits get_reply.splits if_splits)

lemma Process_baum:
  "fst (Process noTables \<lparr>client = dwdsSite\<rparr> [''Word'' \<mapsto> ''Baum''] audioStep)
     = [''Word'' \<mapsto> ''Baum'', ''Audio'' \<mapsto> ''https://www.dwds.de/audio/baum.mp3'']"
  by (simp add: model_defs)

text \<open>
  C10. If the step configuration's \<open>source_field\<close> or \<open>target_field\<close> is the empty
  string, \<open>Process\<close> of the built-in step returns a non-nil error and leaves the
  mapping unchanged, whatever the mapping holds.
\<close>

theorem Process_config_error:
  "SourceField config = [] \<or> TargetField config = [] \<Longrightarrow>
   fst (Process rt p noteData config) = noteData \<and> snd (Process rt p noteData config) \<noteq> None"
  by (auto simp: Process_def)

theorem Process_config_error_witness:
  "TargetField (audioStep\<lparr>TargetField := []\<rparr>) = []
   \<and> fst (Process noTables \<lparr>client = dwdsSite\<rparr> [''Word'' \<mapsto> ''Baum''] (audioStep\<lparr>TargetField := []\<rparr>))
       = [''Word'' \<mapsto> ''Baum'']
   \<and> snd (Process noTables \<lparr>client = dwdsSite\<rparr> [''Word'' \<mapsto> ''Baum''] (audioStep\<lparr>TargetField := []\<rparr>))
       \<noteq> None"
  using Process_config_error [where config = "audioStep\<lparr>TargetField := []\<rparr>" and rt = noTables
      and p = "\<lparr>client = dwdsSite\<rparr>" and noteData = "[''Word'' \<mapsto> ''Baum'']"]
  by (simp add: audioStep_def)

section \<open>The record loop\<close>

lemma runProcessors_eventPage:
  "e \<in> set (fst (runProcessors w page pp steps props)) \<Longrightarrow> eventPage e = page"
  by (induction steps arbitrary: props) (auto simp: Let_def split: if_splits option.splits)

lemma runProcessors_registered:
  "registered w steps \<Longrightarrow> snd (runProcessors w page pp steps props) \<noteq> None"
  by (induction steps arbitrary: props) (auto simp: registered_def Let_def split: option.splits)



lemma processPages_events:
  "e \<in> set (fst (processPages w anki cfg pp pages acc)) \<Longrightarrow>
   eventPage e \<in> set (addable w anki pages)"
proof (induction pages arbitrary: acc)
  case Nil
  then show ?case by simp
next
  case (Cons page pages)
  show ?case
  proof (cases "CanAddNotes w anki (ExtractPropertiesFromPage page) = Inr True")
    case False
    with Cons show ?thesis
      by (auto simp: addable_def Let_def split: sum.splits if_splits)
  next
    case True
    obtain evs r where rp: "runProcessors w page pp (Processors cfg) (ExtractPropertiesFromPage page) = (evs, r)"
      by (cases "runProcessors w page pp (Processors cfg) (ExtractPropertiesFromPage page)")
    have here: "e \<in> set evs \<Longrightarrow> eventPage e = page"
      using runProcessors_eventPage [of e w page pp "Processors cfg" "ExtractPropertiesFromPage page"] rp by simp
    from Cons.prems True rp have "e \<in> set evs \<or> (\<exists>acc'. e \<in> set (fst (processPages w anki cfg pp pages acc')))"
      by (auto simp: Let_def split: option.splits)
    with here Cons.IH True show ?thesis
      by (auto simp: addable_def)
  qed
qed

lemma processPages_batch:
  "snd (processPages w anki cfg pp pages acc) = Some b \<Longrightarrow>
   map fst b = map fst acc @ addable w anki pages"
proof (induction pages arbitrary: acc)
  case Nil
  then show ?case by (simp add: addable_def)
next
  case (Cons page pages)
  show ?case
  proof (cases "CanAddNotes w anki (ExtractPropertiesFromPage page) = Inr True")
    case False
    with Cons show ?thesis
      by (auto simp: addable_def Let_def split: sum.splits if_splits)
  next
    case True
    obtain evs r where rp: "runProcessors w page pp (Processors cfg) (ExtractPropertiesFromPage page) = (evs, r)"
      by (cases "runProcessors w page pp (Processors cfg) (ExtractPropertiesFromPage page)")
    from Cons.prems True rp obtain props where r: "r = Some props"
      and rest: "snd (processPages w anki cfg pp pages (acc @ [(page, props)])) = Some b"
      by (cases r) (auto simp: Let_def)
    from Cons.IH [OF rest] True show ?thesis
      by (simp add: addable_def)
  qed
qed

lemma processPages_registered:
  "registered w (Processors cfg) \<Longrightarrow> snd (processPages w anki cfg pp pages acc) \<noteq> None"
proof (induction pages arbitrary: acc)
  case Nil
  then show ?case by simp
next
  case (Cons page pages)
  obtain evs r where rp: "runProcessors w page pp (Processors cfg) (ExtractPropertiesFromPage page) = (evs, r)"
    by (cases "runProcessors w page pp (Processors cfg) (ExtractPropertiesFromPage page)")
  with runProcessors_registered [OF Cons.prems, of page pp "ExtractPropertiesFromPage page"]
  obtain props where "r = Some props" by auto
  with rp Cons show ?case
    by (auto simp: Let_def split: sum.splits)
qed





section \<open>One cycle\<close>

lemma sync_reaches_loop:
  assumes "CheckAnkiConnect w anki = None"
    and "QueryAllPages fuel w nt = Returns (Inr (pages, pp))"
    and "EnsureDeckExists w anki = None"
    and "EnsureModelExists w anki pp = None"
  shows "sync fuel w anki nt cfg =
     (case processPages w anki cfg pp pages [] of
        (evs, None) \<Rightarrow> \<lparr>events = evs, batch = [], ended = Panics\<rparr>
      | (evs, Some notesToAdd) \<Rightarrow>
          \<lparr>events = evs, batch = notesToAdd, ended = Returns (None, nt\<lparr>LastSyncTime := Now w\<rparr>)\<rparr>)"
  using assms by (simp add: sync_def Let_def)

lemma sync_completes:
  assumes "CheckAnkiConnect w anki = None"
    and "QueryAllPages fuel w nt = Returns (Inr (pages, pp))"
    and "EnsureDeckExists w anki = None"
    and "EnsureModelExists w anki pp = None"
    and "registered w (Processors cfg)"
  shows "\<exists>notesToAdd. processPages w anki cfg pp pages [] = (events (sync fuel w anki nt cfg), Some notesToAdd)
           \<and> sync fuel w anki nt cfg =
             \<lparr>events = fst (processPages w anki cfg pp pages []), batch = notesToAdd,
              ended = Returns (None, nt\<lparr>LastSyncTime := Now w\<rparr>)\<rparr>"
proof -
  obtain evs r where pp: "processPages w anki cfg pp pages [] = (evs, r)"
    by (cases "processPages w anki cfg pp pages []")
  with processPages_registered [OF assms(5), of anki pp pages "[]"] obtain b where "r = Some b"
    by auto
  with pp sync_reaches_loop [OF assms(1-4), of cfg] show ?thesis by simp
qed

lemma sync_from_loop:
  "events (sync fuel w anki nt cfg) \<noteq> [] \<or> batch (sync fuel w anki nt cfg) \<noteq> [] \<Longrightarrow>
   \<exists>pages pp. events (sync fuel w anki nt cfg) = fst (processPages w anki cfg pp pages [])
     \<and> (batch (sync fuel w anki nt cfg) = []
        \<or> snd (processPages w anki cfg pp pages []) = Some (batch (sync fuel w anki nt cfg)))"
  apply (auto simp: sync_def Let_def split: option.splits outcome.splits sum.splits prod.splits)
    apply (metis fst_conv snd_conv)+
  done

lemma sync_events_addable:
  assumes "e \<in> set (events (sync fuel w anki nt cfg))"
  shows "CanAddNotes w anki (ExtractPropertiesFromPage (eventPage e)) = Inr True"
proof -
  from assms have "events (sync fuel w anki nt cfg) \<noteq> []" by auto
  with sync_from_loop [of fuel w anki nt cfg] obtain pages pp
    where "events (sync fuel w anki nt cfg) = fst (processPages w anki cfg pp pages [])" by blast
  with assms processPages_events [of e w anki cfg pp pages "[]"] show ?thesis
    by (simp add: addable_def)
qed

lemma sync_batch_addable:
  assumes "p \<in> fst ` set (batch (sync fuel w anki nt cfg))"
  shows "CanAddNotes w anki (ExtractPropertiesFromPage p) = Inr True"
proof -
  from assms have ne: "batch (sync fuel w anki nt cfg) \<noteq> []" by auto
  with sync_from_loop [of fuel w anki nt cfg] obtain pages pp
    where "snd (processPages w anki cfg pp pages []) = Some (batch (sync fuel w anki nt cfg))" by blast
  from processPages_batch [OF this] assms have "p \<in> set (addable w anki pages)"
    by (metis append_Nil list.map(1) list.set_map)
  then show ?thesis by (simp add: addable_def)
qed

text \<open>
  C3. A record for which \<open>CanAddNotes\<close> reports that the note cannot be added is
  skipped entirely: no transform step is called on its field mapping, no write-back is
  made for it, and it is not in the pending insert batch.
\<close>

theorem sync_skips_duplicates:
  "CanAddNotes w anki (ExtractPropertiesFromPage p) = Inr False \<Longrightarrow>
   (\<forall>name. ProcessCalled p name \<notin> set (events (sync fuel w anki nt cfg)))
   \<and> (\<forall>props. UpdatePageOfDatabaseCalled p props \<notin> set (events (sync fuel w anki nt cfg)))
   \<and> p \<notin> fst ` set (batch (sync fuel w anki nt cfg))"
  using sync_events_addable [of "ProcessCalled p _" fuel w anki nt cfg]
    sync_events_addable [of "UpdatePageOfDatabaseCalled p _" fuel w anki nt cfg]
    sync_batch_addable [of p fuel w anki nt cfg]
  by auto

lemma scenario_query:
  "QueryAllPages (Suc 0) theWorld theNotion
     = Returns (Inr ([hausPage, baumPage, tischPage], [(''Word'', DBPropTypeTitle [''Haus''])]))"
  by (simp add: model_defs)

lemma scenario_sync:
  "sync (Suc 0) theWorld theAnki theNotion theConfig =
     \<lparr>events = [ProcessCalled hausPage ''dwds_audio'',
                UpdatePageOfDatabaseCalled hausPage [(''Audio'', [])],
                ProcessCalled baumPage ''dwds_audio'',
                UpdatePageOfDatabaseCalled baumPage [(''Audio'', ''https://www.dwds.de/audio/baum.mp3'')]],
      batch = [(hausPage, [''Word'' \<mapsto> ''Haus'']),
               (baumPage, [''Word'' \<mapsto> ''Baum'', ''Audio'' \<mapsto> ''https://www.dwds.de/audio/baum.mp3''])],
      ended = Returns (None, theNotion\<lparr>LastSyncTime := 1000 * Hour\<rparr>)\<rparr>"
  by (simp add: model_defs)

theorem sync_skips_duplicates_witness:
  "CanAddNotes theWorld theAnki (ExtractPropertiesFromPage tischPage) = Inr False
   \<and> (\<exists>pp. QueryAllPages (Suc 0) theWorld theNotion = Returns (Inr ([hausPage, baumPage, tischPage], pp)))
   \<and> ProcessCalled tischPage ''dwds_audio'' \<notin> set (events (sync (Suc 0) theWorld theAnki theNotion theConfig))
   \<and> UpdatePageOfDatabaseCalled tischPage [(''Audio'', [])] \<notin> set (events (sync (Suc 0) theWorld theAnki theNotion theConfig))
   \<and> tischPage \<notin> fst ` set (batch (sync (Suc 0) theWorld theAnki theNotion theConfig))
   \<and> ProcessCalled baumPage ''dwds_audio'' \<in> set (events (sync (Suc 0) theWorld theAnki theNotion theConfig))"
proof -
  have dup: "CanAddNotes theWorld theAnki (ExtractPropertiesFromPage tischPage) = Inr False"
    by (simp add: model_defs)
  from sync_skips_duplicates [OF dup, of "Suc 0" theNotion theConfig] dup scenario_query show ?thesis
    by (simp add: scenario_sync)
qed


lemma sync_early:
  "CheckAnkiConnect w anki \<noteq> None
   \<or> (\<exists>e. QueryAllPages fuel w nt = Returns (Inl e))
   \<or> (\<exists>pages pp. QueryAllPages fuel w nt = Returns (Inr (pages, pp))
        \<and> (EnsureDeckExists w anki \<noteq> None \<or> EnsureModelExists w anki pp \<noteq> None))
   \<Longrightarrow> \<exists>err. sync fuel w anki nt cfg = \<lparr>events = [], batch = [], ended = Returns (Some err, nt)\<rparr>"
  by (auto simp: sync_def split: option.splits)

lemma sync_returns:
  "ended (sync fuel w anki nt cfg) = Returns (err, nt') \<Longrightarrow>
   (err = None \<and> nt' = nt\<lparr>LastSyncTime := Now w\<rparr>) \<or> (err \<noteq> None \<and> nt' = nt)"
  by (auto simp: sync_def Let_def split: option.splits outcome.splits sum.splits prod.splits)

lemma tickerLoop_cursor:
  "sorted (map Now ws) \<Longrightarrow> \<forall>v \<in> set ws. LastSyncTime nt \<le> Now v \<Longrightarrow>
   tickerLoop fuel ws anki nt cfg = Running nt' \<Longrightarrow> LastSyncTime nt \<le> LastSyncTime nt'"
proof (induction ws arbitrary: nt)
  case Nil
  then show ?case by simp
next
  case (Cons w ws)
  from Cons.prems(3) obtain err nt1
    where cycle: "ended (sync fuel w anki nt cfg) = Returns (err, nt1)"
      and rest: "tickerLoop fuel ws anki nt1 cfg = Running nt'"
    by (auto split: outcome.splits)
  from sync_returns [OF cycle]
  have step: "LastSyncTime nt1 = Now w \<or> nt1 = nt" by auto
  from Cons.prems(2) have now: "LastSyncTime nt \<le> Now w" by simp
  from Cons.prems(1) have later: "\<forall>v \<in> set ws. Now w \<le> Now v" and sorted: "sorted (map Now ws)"
    by simp_all
  from step now have up: "LastSyncTime nt \<le> LastSyncTime nt1" by auto
  from step later Cons.prems(2) have "\<forall>v \<in> set ws. LastSyncTime nt1 \<le> Now v" by auto
  from Cons.IH [OF sorted this rest] up show ?case by simp
qed

text \<open>
  C2. The sync cursor never decreases. A cycle that returns without an error has set
  it to the current time, which is at least its prior value when the clock has not
  run backwards (within one process Go compares times by their monotonic readings);
  this is so whenever the probe, the query and the deck and model checks succeed and
  every enabled step is registered, whatever the transforms, the write-backs and the
  bulk insert answer. A cycle that returns an error (the connectivity probe failed,
  the source query failed, or the deck or the model could not be ensured) leaves the
  client, and so the cursor, exactly as it was. Over any run of cycles of the ticker
  loop, under clock readings that do not decrease, the cursor at the end is at least
  the cursor at the start.
\<close>

theorem sync_cursor:
  "(ended (sync fuel w anki nt cfg) = Returns (None, nt') \<longrightarrow> LastSyncTime nt' = Now w)
   \<and> (ended (sync fuel w anki nt cfg) = Returns (Some err, nt') \<longrightarrow> nt' = nt)
   \<and> (LastSyncTime nt \<le> Now w \<and> ended (sync fuel w anki nt cfg) = Returns (r, nt')
        \<longrightarrow> LastSyncTime nt \<le> LastSyncTime nt')
   \<and> (CheckAnkiConnect w anki = None \<and> QueryAllPages fuel w nt = Returns (Inr (pages, pp))
        \<and> EnsureDeckExists w anki = None \<and> EnsureModelExists w anki pp = None
        \<and> registered w (Processors cfg)
        \<longrightarrow> ended (sync fuel w anki nt cfg) = Returns (None, nt\<lparr>LastSyncTime := Now w\<rparr>))
   \<and> (CheckAnkiConnect w anki \<noteq> None
        \<or> (\<exists>e. QueryAllPages fuel w nt = Returns (Inl e))
        \<or> (\<exists>pages pp. QueryAllPages fuel w nt = Returns (Inr (pages, pp))
             \<and> (EnsureDeckExists w anki \<noteq> None \<or> EnsureModelExists w anki pp \<noteq> None))
        \<longrightarrow> (\<exists>e. ended (sync fuel w anki nt cfg) = Returns (Some e, nt)))
   \<and> (sorted (map Now ws) \<and> (\<forall>v \<in> set ws. LastSyncTime nt \<le> Now v)
        \<and> tickerLoop fuel ws anki nt cfg = Running final
        \<longrightarrow> LastSyncTime nt \<le> LastSyncTime final)"
proof (intro conjI impI)
  assume "ended (sync fuel w anki nt cfg) = Returns (None, nt')"
  from sync_returns [OF this] show "LastSyncTime nt' = Now w" by simp
next
  assume "ended (sync fuel w anki nt cfg) = Returns (Some err, nt')"
  from sync_returns [OF this] show "nt' = nt" by simp
next
  assume "LastSyncTime nt \<le> Now w \<and> ended (sync fuel w anki nt cfg) = Returns (r, nt')"
  then have clock: "LastSyncTime nt \<le> Now w" and "ended (sync fuel w anki nt cfg) = Returns (r, nt')"
    by simp_all
  from sync_returns [OF this(2)] clock show "LastSyncTime nt \<le> LastSyncTime nt'" by auto
next
  assume "CheckAnkiConnect w anki = None \<and> QueryAllPages fuel w nt = Returns (Inr (pages, pp))
        \<and> EnsureDeckExists w anki = None \<and> EnsureModelExists w anki pp = None
        \<and> registered w (Processors cfg)"
  then have "CheckAnkiConnect w anki = None" "QueryAllPages fuel w nt = Returns (Inr (pages, pp))"
    "EnsureDeckExists w anki = None" "EnsureModelExists w anki pp = None" "registered w (Processors cfg)"
    by simp_all
  from sync_completes [OF this] obtain b where
    "sync fuel w anki nt cfg = \<lparr>events = fst (processPages w anki cfg pp pages []), batch = b,
              ended = Returns (None, nt\<lparr>LastSyncTime := Now w\<rparr>)\<rparr>" by blast
  then show "ended (sync fuel w anki nt cfg) = Returns (None, nt\<lparr>LastSyncTime := Now w\<rparr>)" by simp
next
  assume "CheckAnkiConnect w anki \<noteq> None
        \<or> (\<exists>e. QueryAllPages fuel w nt = Returns (Inl e))
        \<or> (\<exists>pages pp. QueryAllPages fuel w nt = Returns (Inr (pages, pp))
             \<and> (EnsureDeckExists w anki \<noteq> None \<or> EnsureModelExists w anki pp \<noteq> None))"
  from sync_early [OF this, of cfg] obtain e where
    "sync fuel w anki nt cfg = \<lparr>events = [], batch = [], ended = Returns (Some e, nt)\<rparr>" by blast
  then show "\<exists>e. ended (sync fuel w anki nt cfg) = Returns (Some e, nt)" by simp
next
  assume "sorted (map Now ws) \<and> (\<forall>v \<in> set ws. LastSyncTime nt \<le> Now v)
        \<and> tickerLoop fuel ws anki nt cfg = Running final"
  then show "LastSyncTime nt \<le> LastSyncTime final"
    using tickerLoop_cursor [of ws nt fuel anki cfg final] by blast
qed

lemma broken_prelims:
  "CheckAnkiConnect brokenWorld theAnki = None"
  "QueryAllPages (Suc 0) brokenWorld theNotion
     = Returns (Inr ([hausPage, baumPage, tischPage], [(''Word'', DBPropTypeTitle [''Haus''])]))"
  "EnsureDeckExists brokenWorld theAnki = None"
  "EnsureModelExists brokenWorld theAnki [(''Word'', DBPropTypeTitle [''Haus''])] = None"
  "registered brokenWorld (Processors theConfig)"
  "UpdatePageOfDatabase brokenWorld hausPage [(''Audio'', [])] [(''Word'', DBPropTypeTitle [''Haus''])]
     = Some (Errorf ''update rejected'')"
  by (simp_all add: model_defs)

lemma two_cycles:
  "tickerLoop (Suc 0) [brokenWorld, theWorld\<lparr>httpPost := deadSink, Now := 1001 * Hour\<rparr>]
       theAnki theNotion theConfig
     = Running (theNotion\<lparr>LastSyncTime := 1000 * Hour\<rparr>)"
  by (simp add: model_defs)

theorem sync_cursor_witness:
  "LastSyncTime theNotion \<le> Now brokenWorld
   \<and> registered brokenWorld (Processors theConfig)
   \<and> UpdatePageOfDatabase brokenWorld hausPage [(''Audio'', [])] [(''Word'', DBPropTypeTitle [''Haus''])]
       = Some (Errorf ''update rejected'')
   \<and> ended (sync (Suc 0) brokenWorld theAnki theNotion theConfig)
       = Returns (None, theNotion\<lparr>LastSyncTime := Now brokenWorld\<rparr>)
   \<and> LastSyncTime theNotion \<le> LastSyncTime (theNotion\<lparr>LastSyncTime := Now brokenWorld\<rparr>)
   \<and> CheckAnkiConnect (theWorld\<lparr>httpPost := deadSink\<rparr>) theAnki \<noteq> None
   \<and> (\<exists>e. ended (sync (Suc 0) (theWorld\<lparr>httpPost := deadSink\<rparr>) theAnki theNotion theConfig)
            = Returns (Some e, theNotion))
   \<and> sorted (map Now [brokenWorld, theWorld\<lparr>httpPost := deadSink, Now := 1001 * Hour\<rparr>])
   \<and> tickerLoop (Suc 0) [brokenWorld, theWorld\<lparr>httpPost := deadSink, Now := 1001 * Hour\<rparr>]
         theAnki theNotion theConfig
       = Running (theNotion\<lparr>LastSyncTime := 1000 * Hour\<rparr>)
   \<and> LastSyncTime theNotion \<le> LastSyncTime (theNotion\<lparr>LastSyncTime := 1000 * Hour\<rparr>)"
proof -
  have clock: "LastSyncTime theNotion \<le> Now brokenWorld"
    by (simp add: model_defs)
  have dead: "CheckAnkiConnect (theWorld\<lparr>httpPost := deadSink\<rparr>) theAnki \<noteq> None"
    by (simp add: model_defs)
  have clocks: "sorted (map Now [brokenWorld, theWorld\<lparr>httpPost := deadSink, Now := 1001 * Hour\<rparr>])"
    "\<forall>v \<in> set [brokenWorld, theWorld\<lparr>httpPost := deadSink, Now := 1001 * Hour\<rparr>].
        LastSyncTime theNotion \<le> Now v"
    by (simp_all add: model_defs)
  note run = sync_cursor [where fuel = "Suc 0" and w = brokenWorld and anki = theAnki
      and nt = theNotion and cfg = theConfig
      and nt' = "theNotion\<lparr>LastSyncTime := Now brokenWorld\<rparr>" and err = "Errorf []" and r = None
      and pages = "[hausPage, baumPage, tischPage]" and pp = "[(''Word'', DBPropTypeTitle [''Haus''])]"
      and ws = "[brokenWorld, theWorld\<lparr>httpPost := deadSink, Now := 1001 * Hour\<rparr>]"
      and final = "theNotion\<lparr>LastSyncTime := 1000 * Hour\<rparr>"]
  note abort = sync_cursor [where fuel = "Suc 0" and w = "theWorld\<lparr>httpPost := deadSink\<rparr>"
      and anki = theAnki and nt = theNotion and cfg = theConfig
      and nt' = theNotion and err = "Wrapf ErrAnkiConnectFailed ''%w: %v''"
      and r = "Some (Wrapf ErrAnkiConnectFailed ''%w: %v'')" and pages = "[]" and pp = "[]"
      and ws = "[]" and final = theNotion]
  from run abort clock dead clocks broken_prelims two_cycles show ?thesis
    by simp
qed

text \<open>
  C1. An enabled step whose name has no implementation in the registry. The program
  logs that it skips the step and then calls \<open>Process\<close> on the nil interface value:
  the cycle panics and the process crashes, where the claim has it continue with the
  next step and record.
\<close>

theorem sync_unregistered_step_panics:
  "processorRegistry theWorld (Name ipaStep) = None
   \<and> ended (sync (Suc 0) theWorld theAnki theNotion \<lparr>Processors = [ipaStep]\<rparr>) = Panics
   \<and> Start (Suc 0) theWorld [theWorld] theAnki (Some theNotion) \<lparr>Processors = [ipaStep]\<rparr> = Crashed"
  by (simp add: model_defs)








section \<open>The scheduler and the cursor at startup\<close>






text \<open>When the first cycle has returned without a fatal error and the interval of
  the ticker is not positive, making the ticker panics and the process crashes.\<close>

lemma Start_ticker_panics:
  assumes "ended (sync fuel w anki nt cfg) = Returns (r, nt')"
    and "\<forall>err. r = Some err \<longrightarrow> \<not> isFatalError err"
    and "tickerInterval nt \<le> 0"
  shows "Start fuel w ws anki (Some nt) cfg = Crashed"
proof -
  from sync_returns [OF assms(1)] have "tickerInterval nt' = tickerInterval nt"
    by (auto simp: tickerInterval_def)
  with assms show ?thesis
    by (cases r) (simp_all add: Start_def)
qed










section \<open>The record extractor\<close>

lemma extractProperty_apply:
  "extractProperty m name prop k =
     (if k = name then (case flattened prop of None \<Rightarrow> m name | Some v \<Rightarrow> Some v) else m k)"
  by (auto simp: extractProperty_def flattened_def Let_def
      split: DatabasePageProperty.splits list.splits option.splits)

lemma extractLoop_other:
  "name \<notin> fst ` set ps \<Longrightarrow> extractLoop ps m name = m name"
  by (induction ps arbitrary: m) (auto simp: extractProperty_apply)

lemma extractLoop_lookup:
  "distinct (map fst ps) \<Longrightarrow> (name, prop) \<in> set ps \<Longrightarrow>
   extractLoop ps m name = (case flattened prop of None \<Rightarrow> m name | Some v \<Rightarrow> Some v)"
proof (induction ps arbitrary: m)
  case Nil
  then show ?case by simp
next
  case (Cons entry ps)
  obtain n q where entry: "entry = (n, q)" by (cases entry)
  show ?case
  proof (cases "(name, prop) = entry")
    case True
    with entry Cons.prems have "name \<notin> fst ` set ps" by auto
    with True entry show ?thesis
      by (auto simp: extractLoop_other extractProperty_apply)
  next
    case False
    with Cons.prems entry have later: "(name, prop) \<in> set ps" and "n \<noteq> name"
      by (auto simp: rev_image_eqI)
    with Cons.IH [OF _ later] Cons.prems(1) entry show ?thesis
      by (simp add: extractProperty_apply split: option.splits)
  qed
qed

lemma flattened_simps:
  "flattened (DBPropTypeTitle []) = Some ''-''"
  "text \<noteq> [] \<Longrightarrow> flattened (DBPropTypeTitle (text # rest)) = Some text"
  "flattened (DBPropTypeRichText texts) =
     Some (if filter (\<lambda>t. t \<noteq> []) texts = [] then ''-'' else Join (filter (\<lambda>t. t \<noteq> []) texts) '', '')"
  "flattened (DBPropTypeSelect sel) = Some (if sel = None \<or> sel = Some [] then ''-'' else the sel)"
  "flattened (DBPropTypeMultiSelect options) =
     Some (if filter (\<lambda>n. n \<noteq> []) options = [] then ''-'' else Join (filter (\<lambda>n. n \<noteq> []) options) '', '')"
  "flattened (DBPropTypeURL url) = Some (if url = None \<or> url = Some [] then ''-'' else the url)"
  "flattened DBPropTypeOther = None"
  by (auto simp: flattened_def extractProperty_def Let_def split: option.splits)

text \<open>
  C6, as stated, fails: a title of two segments is flattened to its first segment,
  not to the concatenation, and the segments of a rich text are joined with a comma
  and a space between them.
\<close>

theorem Extract_title_counterexample:
  "Properties typedPage = Some
      [(''Word'', DBPropTypeTitle [''Ha'', ''us'']),
       (''Translation'', DBPropTypeRichText [''house'', [], ''home'']),
       (''Artikel'', DBPropTypeSelect (Some ''das'')),
       (''Tag'', DBPropTypeMultiSelect [''noun'', ''A1'']),
       (''Link'', DBPropTypeURL None),
       (''Done'', DBPropTypeOther)]
   \<and> ExtractPropertiesFromPage typedPage ''Word'' = Some ''Ha''
   \<and> concat [''Ha'', ''us''] = ''Haus''
   \<and> ExtractPropertiesFromPage typedPage ''Translation'' = Some ''house, home''
   \<and> concat [''house'', [], ''home''] = ''househome''"
  by (simp add: model_defs)

text \<open>
  C6, amended. For a record with typed properties, the extractor's mapping holds: for
  a title whose first segment is not empty, the plain text of that first segment; for
  a rich text, the non-empty plain texts of its segments joined by a comma and a
  space; for a select, the name of the option; for a multi-select, the non-empty
  option names joined by a comma and a space; for a URL, the URL; the placeholder
  \<open>-\<close> for a title without segments, a rich text or multi-select without a non-empty
  part, and an unset or empty select or URL; and no entry for a property of another
  type or for a name that the record does not have.
\<close>

theorem ExtractPropertiesFromPage_flattens:
  assumes "Properties page = Some dbProps"
    and "distinct (map fst dbProps)"
  shows "(\<forall>name first rest. (name, DBPropTypeTitle (first # rest)) \<in> set dbProps \<and> first \<noteq> []
            \<longrightarrow> ExtractPropertiesFromPage page name = Some first)
    \<and> (\<forall>name texts. (name, DBPropTypeRichText texts) \<in> set dbProps \<and> filter (\<lambda>t. t \<noteq> []) texts \<noteq> []
            \<longrightarrow> ExtractPropertiesFromPage page name = Some (Join (filter (\<lambda>t. t \<noteq> []) texts) '', ''))
    \<and> (\<forall>name n. (name, DBPropTypeSelect (Some n)) \<in> set dbProps \<and> n \<noteq> []
            \<longrightarrow> ExtractPropertiesFromPage page name = Some n)
    \<and> (\<forall>name options. (name, DBPropTypeMultiSelect options) \<in> set dbProps \<and> filter (\<lambda>n. n \<noteq> []) options \<noteq> []
            \<longrightarrow> ExtractPropertiesFromPage page name = Some (Join (filter (\<lambda>n. n \<noteq> []) options) '', ''))
    \<and> (\<forall>name u. (name, DBPropTypeURL (Some u)) \<in> set dbProps \<and> u \<noteq> []
            \<longrightarrow> ExtractPropertiesFromPage page name = Some u)
    \<and> (\<forall>name prop. (name, prop) \<in> set dbProps
            \<and> (prop = DBPropTypeTitle []
               \<or> (\<exists>texts. prop = DBPropTypeRichText texts \<and> filter (\<lambda>t. t \<noteq> []) texts = [])
               \<or> prop = DBPropTypeSelect None \<or> prop = DBPropTypeSelect (Some [])
               \<or> (\<exists>options. prop = DBPropTypeMultiSelect options \<and> filter (\<lambda>n. n \<noteq> []) options = [])
               \<or> prop = DBPropTypeURL None \<or> prop = DBPropTypeURL (Some []))
            \<longrightarrow> ExtractPropertiesFromPage page name = Some ''-'')
    \<and> (\<forall>name. (name, DBPropTypeOther) \<in> set dbProps \<or> name \<notin> fst ` set dbProps
            \<longrightarrow> ExtractPropertiesFromPage page name = None)"
proof -
  have look: "ExtractPropertiesFromPage page key = flattened p" if "(key, p) \<in> set dbProps" for key p
    using extractLoop_lookup [OF assms(2) that, of "Map.empty"] assms(1)
    by (simp add: ExtractPropertiesFromPage_def split: option.splits)
  have other: "ExtractPropertiesFromPage page key = None" if "key \<notin> fst ` set dbProps" for key
    using extractLoop_other [OF that, of "Map.empty"] assms(1)
    by (simp add: ExtractPropertiesFromPage_def)
  show ?thesis
  proof (intro conjI allI impI)
    fix name first rest
    assume h: "(name, DBPropTypeTitle (first # rest)) \<in> set dbProps \<and> first \<noteq> []"
    with look have "ExtractPropertiesFromPage page name = flattened (DBPropTypeTitle (first # rest))"
      by blast
    with h show "ExtractPropertiesFromPage page name = Some first"
      by (simp add: flattened_simps)
  next
    fix name texts
    assume h: "(name, DBPropTypeRichText texts) \<in> set dbProps \<and> filter (\<lambda>t. t \<noteq> []) texts \<noteq> []"
    with look have "ExtractPropertiesFromPage page name = flattened (DBPropTypeRichText texts)"
      by blast
    with h show "ExtractPropertiesFromPage page name = Some (Join (filter (\<lambda>t. t \<noteq> []) texts) '', '')"
      by (simp add: flattened_simps)
  next
    fix name n
    assume h: "(name, DBPropTypeSelect (Some n)) \<in> set dbProps \<and> n \<noteq> []"
    with look have "ExtractPropertiesFromPage page name = flattened (DBPropTypeSelect (Some n))"
      by blast
    with h show "ExtractPropertiesFromPage page name = Some n"
      by (simp add: flattened_simps)
  next
    fix name options
    assume h: "(name, DBPropTypeMultiSelect options) \<in> set dbProps \<and> filter (\<lambda>n. n \<noteq> []) options \<noteq> []"
    with look have "ExtractPropertiesFromPage page name = flattened (DBPropTypeMultiSelect options)"
      by blast
    with h show "ExtractPropertiesFromPage page name = Some (Join (filter (\<lambda>n. n \<noteq> []) options) '', '')"
      by (simp add: flattened_simps)
  next
    fix name u
    assume h: "(name, DBPropTypeURL (Some u)) \<in> set dbProps \<and> u \<noteq> []"
    with look have "ExtractPropertiesFromPage page name = flattened (DBPropTypeURL (Some u))"
      by blast
    with h show "ExtractPropertiesFromPage page name = Some u"
      by (simp add: flattened_simps)
  next
    fix name p
    assume h: "(name, p) \<in> set dbProps
            \<and> (p = DBPropTypeTitle []
               \<or> (\<exists>texts. p = DBPropTypeRichText texts \<and> filter (\<lambda>t. t \<noteq> []) texts = [])
               \<or> p = DBPropTypeSelect None \<or> p = DBPropTypeSelect (Some [])
               \<or> (\<exists>options. p = DBPropTypeMultiSelect options \<and> filter (\<lambda>n. n \<noteq> []) options = [])
               \<or> p = DBPropTypeURL None \<or> p = DBPropTypeURL (Some []))"
    with look have "ExtractPropertiesFromPage page name = flattened p"
      by blast
    moreover from h have "flattened p = Some ''-''"
      by (auto simp: flattened_simps)
    ultimately show "ExtractPropertiesFromPage page name = Some ''-''"
      by simp
  next
    fix name
    assume "(name, DBPropTypeOther) \<in> set dbProps \<or> name \<notin> fst ` set dbProps"
    then show "ExtractPropertiesFromPage page name = None"
      using look [of name DBPropTypeOther] other [of name] flattened_simps(7) by auto
  qed
qed

theorem ExtractPropertiesFromPage_flattens_witness:
  "Properties typedPage = Some
      [(''Word'', DBPropTypeTitle [''Ha'', ''us'']),
       (''Translation'', DBPropTypeRichText [''house'', [], ''home'']),
       (''Artikel'', DBPropTypeSelect (Some ''das'')),
       (''Tag'', DBPropTypeMultiSelect [''noun'', ''A1'']),
       (''Link'', DBPropTypeURL None),
       (''Done'', DBPropTypeOther)]
   \<and> distinct [''Word'', ''Translation'', ''Artikel'', ''Tag'', ''Link'', ''Done'']
   \<and> ExtractPropertiesFromPage typedPage ''Word'' = Some ''Ha''
   \<and> ExtractPropertiesFromPage typedPage ''Translation'' = Some ''house, home''
   \<and> ExtractPropertiesFromPage typedPage ''Artikel'' = Some ''das''
   \<and> ExtractPropertiesFromPage typedPage ''Tag'' = Some ''noun, A1''
   \<and> ExtractPropertiesFromPage typedPage ''Link'' = Some ''-''
   \<and> ExtractPropertiesFromPage typedPage ''Done'' = None
   \<and> ExtractPropertiesFromPage typedPage ''Audio'' = None"
proof -
  let ?props = "[(''Word'', DBPropTypeTitle [''Ha'', ''us'']),
       (''Translation'', DBPropTypeRichText [''house'', [], ''home'']),
       (''Artikel'', DBPropTypeSelect (Some ''das'')),
       (''Tag'', DBPropTypeMultiSelect [''noun'', ''A1'']),
       (''Link'', DBPropTypeURL None),
       (''Done'', DBPropTypeOther)]"
  have props: "Properties typedPage = Some ?props"
    by (simp add: typedPage_def)
  have keys: "distinct (map fst ?props)"
    by simp
  note all = ExtractPropertiesFromPage_flattens [OF props keys]
  have "ExtractPropertiesFromPage typedPage ''Word'' = Some ''Ha''"
    using all by simp
  moreover have "ExtractPropertiesFromPage typedPage ''Translation'' = Some ''house, home''"
    using all by simp
  moreover have "ExtractPropertiesFromPage typedPage ''Artikel'' = Some ''das''"
    using all by simp
  moreover have "ExtractPropertiesFromPage typedPage ''Tag'' = Some ''noun, A1''"
    using all by simp
  moreover have "ExtractPropertiesFromPage typedPage ''Link'' = Some ''-''"
    using all by simp
  moreover have "ExtractPropertiesFromPage typedPage ''Done'' = None"
    using all by simp
  moreover have "ExtractPropertiesFromPage typedPage ''Audio'' = None"
    using all by simp
  ultimately show ?thesis using props by simp
qed


section \<open>The built-in transform step: frame and accepted references\<close>

text \<open>
  C8, as stated, fails: with a configuration whose \<open>target_field\<close> is empty, the
  source field \<open>Word\<close> is absent from the empty mapping and the step returns an
  error, not success.
\<close>

theorem Process_absent_source_counterexample:
  "Map.empty (SourceField (audioStep\<lparr>TargetField := []\<rparr>)) = (None :: string option)
   \<and> snd (Process noTables \<lparr>client = dwdsSite\<rparr> Map.empty (audioStep\<lparr>TargetField := []\<rparr>))
       = Some (Errorf ''dwds_audio processor requires 'source_field' and 'target_field' in its config'')"
  by (simp add: audioStep_def Process_def)

text \<open>
  C8, amended. When the source field is absent from the mapping or maps to the empty
  string, the step leaves the mapping unchanged, and it returns success provided
  that the configured names of the source and the target field are both non-empty.
  On every call, whatever the mapping and the configuration, every field other than
  the configured target field keeps its value or its absence.
\<close>

theorem Process_frame:
  "(SourceField config \<noteq> [] \<and> TargetField config \<noteq> []
      \<and> (noteData (SourceField config) = None \<or> noteData (SourceField config) = Some [])
      \<longrightarrow> Process rt p noteData config = (noteData, None))
   \<and> (noteData (SourceField config) = None \<or> noteData (SourceField config) = Some []
      \<longrightarrow> fst (Process rt p noteData config) = noteData)
   \<and> (\<forall>k. k \<noteq> TargetField config \<longrightarrow> fst (Process rt p noteData config) k = noteData k)"
  by (auto simp: Process_def Let_def split: option.splits prod.splits)

theorem Process_frame_witness:
  "SourceField audioStep \<noteq> [] \<and> TargetField audioStep \<noteq> []
   \<and> [''Other'' \<mapsto> ''x''] (SourceField audioStep) = None
   \<and> Process noTables \<lparr>client = dwdsSite\<rparr> [''Other'' \<mapsto> ''x''] audioStep = ([''Other'' \<mapsto> ''x''], None)
   \<and> [''Word'' \<mapsto> []] (SourceField audioStep) = Some []
   \<and> Process noTables \<lparr>client = dwdsSite\<rparr> [''Word'' \<mapsto> []] audioStep = ([''Word'' \<mapsto> []], None)
   \<and> ''Word'' \<noteq> TargetField audioStep
   \<and> fst (Process noTables \<lparr>client = dwdsSite\<rparr> [''Word'' \<mapsto> ''Baum''] audioStep) ''Word'' = Some ''Baum''
   \<and> fst (Process noTables \<lparr>client = dwdsSite\<rparr> [''Word'' \<mapsto> ''Baum''] audioStep) ''Audio''
       = Some ''https://www.dwds.de/audio/baum.mp3''"
  using Process_frame [where config = audioStep and noteData = "[''Other'' \<mapsto> ''x'']"
        and rt = noTables and p = "\<lparr>client = dwdsSite\<rparr>"]
    Process_frame [where config = audioStep and noteData = "[''Word'' \<mapsto> []]"
        and rt = noTables and p = "\<lparr>client = dwdsSite\<rparr>"]
    Process_frame [where config = audioStep and noteData = "[''Word'' \<mapsto> ''Baum'']"
        and rt = noTables and p = "\<lparr>client = dwdsSite\<rparr>"]
    Process_baum
  by (simp add: audioStep_def)

text \<open>
  C9, as stated, fails: the reference below has the file extension \<open>.txt\<close> and a
  path without any of the keywords, and it is accepted, because its host name holds
  \<open>media\<close>.
\<close>

theorem cleanAudioURL_counterexample:
  "cleanAudioURL noTables ''https://media.example.org/haus.txt'' = ''https://media.example.org/haus.txt''
   \<and> urlPath ''https://media.example.org/haus.txt'' = ''/haus.txt''
   \<and> fileExtension ''/haus.txt'' = ''.txt''
   \<and> \<not> looksLikeAudio noTables ''https://media.example.org/haus.txt''"
  by (simp add: model_defs)

text \<open>
  C9, amended. After decoding and trimming, a reference that starts with \<open>http\<close>
  is taken as it is; one that starts with a single \<open>/\<close> is appended to the base
  URL; a non-empty reference that starts with neither \<open>http\<close> nor \<open>/\<close> and has no
  \<open>javascript:\<close> in it is appended to the base URL and a \<open>/\<close>; an empty reference,
  and one that starts with neither \<open>http\<close> nor \<open>/\<close> and has \<open>javascript:\<close> in it,
  is rejected. The resolved reference is accepted if and only if its text, lower-cased
  by \<open>strings.ToLower\<close>, contains, anywhere, one of \<open>.mp3 .ogg .wav .m4a .aac audio
  sound pronunciation media mp3\<close>. An accepted reference starts with \<open>http\<close>, and
  the step changes the target field only to an accepted reference, scraped from the
  page that the lookup of the lower-cased, escaped word returned with status 200.
  This holds for every string, ASCII or not, whatever the tables of package
  \<open>unicode\<close> give.
\<close>

theorem cleanAudioURL_accepts:
  "(HasPrefix (unescapeTrim rt rawURL) ''http'' \<longrightarrow>
      cleanAudioURL rt rawURL = (if isAudioURL rt (unescapeTrim rt rawURL) then unescapeTrim rt rawURL else []))
   \<and> (HasPrefix (unescapeTrim rt rawURL) ''/'' \<and> \<not> HasPrefix (unescapeTrim rt rawURL) ''//'' \<longrightarrow>
      cleanAudioURL rt rawURL = (if isAudioURL rt (baseURL @ unescapeTrim rt rawURL)
                               then baseURL @ unescapeTrim rt rawURL else []))
   \<and> (unescapeTrim rt rawURL \<noteq> [] \<and> \<not> HasPrefix (unescapeTrim rt rawURL) ''http''
       \<and> \<not> HasPrefix (unescapeTrim rt rawURL) ''/'' \<and> \<not> Contains (unescapeTrim rt rawURL) ''javascript:'' \<longrightarrow>
      cleanAudioURL rt rawURL = (if isAudioURL rt (baseURL @ ''/'' @ unescapeTrim rt rawURL)
                               then baseURL @ ''/'' @ unescapeTrim rt rawURL else []))
   \<and> (unescapeTrim rt rawURL = []
       \<or> (\<not> HasPrefix (unescapeTrim rt rawURL) ''http'' \<and> \<not> HasPrefix (unescapeTrim rt rawURL) ''/''
           \<and> Contains (unescapeTrim rt rawURL) ''javascript:'') \<longrightarrow>
      cleanAudioURL rt rawURL = [])
   \<and> isAudioURL rt url = list_ex (Contains (ToLower rt url))
        [''.mp3'', ''.ogg'', ''.wav'', ''.m4a'', ''.aac'',
         ''audio'', ''sound'', ''pronunciation'', ''media'', ''mp3'']
   \<and> (cleanAudioURL rt rawURL \<noteq> [] \<longrightarrow>
        HasPrefix (cleanAudioURL rt rawURL) ''http'' \<and> isAudioURL rt (cleanAudioURL rt rawURL))
   \<and> (fst (Process rt p noteData config) (TargetField config) \<noteq> noteData (TargetField config) \<longrightarrow>
        (\<exists>word doc. noteData (SourceField config) = Some word
           \<and> client p (baseURL @ ''/wb/'' @ QueryEscape (ToLower rt word)) = GetReply 200 (Some doc)
           \<and> cleanAudioURL rt (scrapedURL doc) \<noteq> []
           \<and> fst (Process rt p noteData config) (TargetField config) = Some (cleanAudioURL rt (scrapedURL doc))))"
proof -
  let ?u = "unescapeTrim rt rawURL"
  have e: "\<not> HasPrefix [] ''http''" "\<not> HasPrefix [] ''/''"
    by (simp_all add: HasPrefix_def)
  have 1: "HasPrefix ?u ''http'' \<longrightarrow> cleanAudioURL rt rawURL = (if isAudioURL rt ?u then ?u else [])"
    by (simp add: cleanAudioURL_cases Let_def)
  have 2: "HasPrefix ?u ''/'' \<and> \<not> HasPrefix ?u ''//'' \<longrightarrow>
      cleanAudioURL rt rawURL = (if isAudioURL rt (baseURL @ ?u) then baseURL @ ?u else [])"
    by (cases ?u) (auto simp: cleanAudioURL_cases Let_def HasPrefix_def)
  have 3: "?u \<noteq> [] \<and> \<not> HasPrefix ?u ''http'' \<and> \<not> HasPrefix ?u ''/'' \<and> \<not> Contains ?u ''javascript:'' \<longrightarrow>
      cleanAudioURL rt rawURL = (if isAudioURL rt (baseURL @ ''/'' @ ?u) then baseURL @ ''/'' @ ?u else [])"
    by (simp add: cleanAudioURL_cases Let_def)
  have 4: "?u = [] \<or> (\<not> HasPrefix ?u ''http'' \<and> \<not> HasPrefix ?u ''/'' \<and> Contains ?u ''javascript:'') \<longrightarrow>
      cleanAudioURL rt rawURL = []"
    using e by (auto simp: cleanAudioURL_cases Let_def)
  have 6: "cleanAudioURL rt rawURL \<noteq> [] \<longrightarrow>
        HasPrefix (cleanAudioURL rt rawURL) ''http'' \<and> isAudioURL rt (cleanAudioURL rt rawURL)"
    using cleanAudioURL_accepted [of rt rawURL] by blast
  have 7: "fst (Process rt p noteData config) (TargetField config) \<noteq> noteData (TargetField config) \<longrightarrow>
        (\<exists>word doc. noteData (SourceField config) = Some word
           \<and> client p (baseURL @ ''/wb/'' @ QueryEscape (ToLower rt word)) = GetReply 200 (Some doc)
           \<and> cleanAudioURL rt (scrapedURL doc) \<noteq> []
           \<and> fst (Process rt p noteData config) (TargetField config) = Some (cleanAudioURL rt (scrapedURL doc)))"
    using Process_writes [of rt p noteData config] by blast
  from 1 2 3 4 isAudioURL_iff [of rt url] 6 7 show ?thesis
    by blast
qed

lemma unescapeTrim_examples:
  "unescapeTrim noTables ''https://media.dwds.de/x/baum.ogg'' = ''https://media.dwds.de/x/baum.ogg''"
  "unescapeTrim noTables '' &#47;audio&#x2F;baum.mp3 '' = ''/audio/baum.mp3''"
  "unescapeTrim noTables ''files/baum.wav'' = ''files/baum.wav''"
  "unescapeTrim noTables ''javascript:play()'' = ''javascript:play()''"
  "unescapeTrim noTables ''/img/baum.png'' = ''/img/baum.png''"
  by (simp_all add: model_defs)

lemma resolved_examples:
  "isAudioURL noTables ''https://media.dwds.de/x/baum.ogg''"
  "isAudioURL noTables ''https://www.dwds.de/audio/baum.mp3''"
  "isAudioURL noTables ''https://www.dwds.de/files/baum.wav''"
  "\<not> isAudioURL noTables ''https://www.dwds.de/img/baum.png''"
  by (simp_all add: model_defs)

lemma prefix_examples:
  "HasPrefix ''https://media.dwds.de/x/baum.ogg'' ''http''"
  "HasPrefix ''/audio/baum.mp3'' ''/''" "\<not> HasPrefix ''/audio/baum.mp3'' ''//''"
  "HasPrefix ''/img/baum.png'' ''/''" "\<not> HasPrefix ''/img/baum.png'' ''//''"
  "\<not> HasPrefix ''files/baum.wav'' ''http''" "\<not> HasPrefix ''files/baum.wav'' ''/''"
  "\<not> Contains ''files/baum.wav'' ''javascript:''"
  "\<not> HasPrefix ''javascript:play()'' ''http''" "\<not> HasPrefix ''javascript:play()'' ''/''"
  "Contains ''javascript:play()'' ''javascript:''"
  by (simp_all add: HasPrefix_def)

theorem cleanAudioURL_accepts_witness:
  "cleanAudioURL noTables ''https://media.dwds.de/x/baum.ogg'' = ''https://media.dwds.de/x/baum.ogg''
   \<and> cleanAudioURL noTables '' &#47;audio&#x2F;baum.mp3 '' = ''https://www.dwds.de/audio/baum.mp3''
   \<and> cleanAudioURL noTables ''files/baum.wav'' = ''https://www.dwds.de/files/baum.wav''
   \<and> cleanAudioURL noTables ''javascript:play()'' = []
   \<and> cleanAudioURL noTables ''/img/baum.png'' = []
   \<and> HasPrefix (cleanAudioURL noTables ''files/baum.wav'') ''http''
   \<and> fst (Process noTables \<lparr>client = dwdsSite\<rparr> [''Word'' \<mapsto> ''Baum''] audioStep) (TargetField audioStep)
        \<noteq> [''Word'' \<mapsto> ''Baum''] (TargetField audioStep)
   \<and> (\<exists>doc. client \<lparr>client = dwdsSite\<rparr> (baseURL @ ''/wb/'' @ QueryEscape (ToLower noTables ''Baum''))
                = GetReply 200 (Some doc)
          \<and> fst (Process noTables \<lparr>client = dwdsSite\<rparr> [''Word'' \<mapsto> ''Baum''] audioStep) (TargetField audioStep)
                = Some (cleanAudioURL noTables (scrapedURL doc)))"
proof -
  note absolute = cleanAudioURL_accepts [where rt = noTables and rawURL = "''https://media.dwds.de/x/baum.ogg''",
      THEN conjunct1, THEN mp]
  note rooted = cleanAudioURL_accepts [where rt = noTables and rawURL = "'' &#47;audio&#x2F;baum.mp3 ''",
      THEN conjunct2, THEN conjunct1, THEN mp]
  note image = cleanAudioURL_accepts [where rt = noTables and rawURL = "''/img/baum.png''",
      THEN conjunct2, THEN conjunct1, THEN mp]
  note relative = cleanAudioURL_accepts [where rt = noTables and rawURL = "''files/baum.wav''",
      THEN conjunct2, THEN conjunct2, THEN conjunct1, THEN mp]
  note script = cleanAudioURL_accepts [where rt = noTables and rawURL = "''javascript:play()''",
      THEN conjunct2, THEN conjunct2, THEN conjunct2, THEN conjunct1, THEN mp]
  note accepted = cleanAudioURL_accepts [where rt = noTables and rawURL = "''files/baum.wav''",
      THEN conjunct2, THEN conjunct2, THEN conjunct2, THEN conjunct2, THEN conjunct2,
      THEN conjunct1, THEN mp]
  note written = cleanAudioURL_accepts [where rt = noTables and p = "\<lparr>client = dwdsSite\<rparr>"
      and noteData = "[''Word'' \<mapsto> ''Baum'']" and config = audioStep,
      THEN conjunct2, THEN conjunct2, THEN conjunct2, THEN conjunct2, THEN conjunct2,
      THEN conjunct2, THEN mp]
  have 1: "cleanAudioURL noTables ''https://media.dwds.de/x/baum.ogg'' = ''https://media.dwds.de/x/baum.ogg''"
    using absolute by (simp add: unescapeTrim_examples resolved_examples prefix_examples)
  have 2: "cleanAudioURL noTables '' &#47;audio&#x2F;baum.mp3 '' = ''https://www.dwds.de/audio/baum.mp3''"
    using rooted by (simp add: unescapeTrim_examples resolved_examples prefix_examples baseURL_def)
  have 3: "cleanAudioURL noTables ''files/baum.wav'' = ''https://www.dwds.de/files/baum.wav''"
    using relative by (simp add: unescapeTrim_examples resolved_examples prefix_examples baseURL_def HasPrefix_def)
  have 4: "cleanAudioURL noTables ''javascript:play()'' = []"
    using script by (simp add: unescapeTrim_examples prefix_examples HasPrefix_def)
  have 5: "cleanAudioURL noTables ''/img/baum.png'' = []"
    using image by (simp add: unescapeTrim_examples resolved_examples prefix_examples baseURL_def)
  have 6: "HasPrefix (cleanAudioURL noTables ''files/baum.wav'') ''http''"
    using accepted 3 by simp
  have changed: "fst (Process noTables \<lparr>client = dwdsSite\<rparr> [''Word'' \<mapsto> ''Baum''] audioStep) (TargetField audioStep)
        \<noteq> [''Word'' \<mapsto> ''Baum''] (TargetField audioStep)"
    by (simp add: Process_baum) (simp add: audioStep_def)
  have source: "[''Word'' \<mapsto> ''Baum''] (SourceField audioStep) = Some ''Baum''"
    by (simp add: audioStep_def)
  from written [OF changed] source
  have 7: "\<exists>doc. client \<lparr>client = dwdsSite\<rparr> (baseURL @ ''/wb/'' @ QueryEscape (ToLower noTables ''Baum''))
                = GetReply 200 (Some doc)
          \<and> fst (Process noTables \<lparr>client = dwdsSite\<rparr> [''Word'' \<mapsto> ''Baum''] audioStep) (TargetField audioStep)
                = Some (cleanAudioURL noTables (scrapedURL doc))"
    by (metis option.inject)
  from 1 2 3 4 5 6 7 changed show ?thesis by blast
qed


end
